theory Spec2Isabelle
  imports Complex_Main "HOL-Library.AList"
begin

section \<open>JavaScript numbers\<close>

text \<open>
  A TypeScript \<open>number\<close> that takes part in a division is modelled by \<open>jsnum\<close>: an exact
  rational, the two infinities, or NaN. Rounding of doubles and the sign of zero are not
  modelled. Timestamps (\<open>Date.now()\<close>, ISO date strings), HTTP status codes, response times
  and counters are integers.
\<close>

datatype jsnum = Fin rat | PInf | NInf | NaN

fun js_div :: "jsnum \<Rightarrow> jsnum \<Rightarrow> jsnum" where
  "js_div (Fin a) (Fin b) =
     (if b = 0 then (if a = 0 then NaN else if 0 < a then PInf else NInf) else Fin (a / b))"
| "js_div (Fin a) PInf = Fin 0"
| "js_div (Fin a) NInf = Fin 0"
| "js_div PInf (Fin b) = (if b < 0 then NInf else PInf)"
| "js_div NInf (Fin b) = (if b < 0 then PInf else NInf)"
| "js_div _ _ = NaN"

fun js_add :: "jsnum \<Rightarrow> jsnum \<Rightarrow> jsnum" where
  "js_add (Fin a) (Fin b) = Fin (a + b)"
| "js_add NaN _ = NaN"
| "js_add _ NaN = NaN"
| "js_add PInf NInf = NaN"
| "js_add NInf PInf = NaN"
| "js_add PInf _ = PInf"
| "js_add _ PInf = PInf"
| "js_add NInf _ = NInf"
| "js_add _ NInf = NInf"

fun js_neg :: "jsnum \<Rightarrow> jsnum" where
  "js_neg (Fin a) = Fin (- a)"
| "js_neg PInf = NInf"
| "js_neg NInf = PInf"
| "js_neg NaN = NaN"

definition js_sub :: "jsnum \<Rightarrow> jsnum \<Rightarrow> jsnum" where
  "js_sub a b = js_add a (js_neg b)"

text \<open>\<open>a < b\<close> and \<open>a <= b\<close> of JavaScript: false as soon as one side is NaN.\<close>

fun js_lt :: "jsnum \<Rightarrow> jsnum \<Rightarrow> bool" where
  "js_lt (Fin a) (Fin b) = (a < b)"
| "js_lt NaN _ = False"
| "js_lt _ NaN = False"
| "js_lt _ NInf = False"
| "js_lt PInf _ = False"
| "js_lt NInf _ = True"
| "js_lt _ PInf = True"

fun js_le :: "jsnum \<Rightarrow> jsnum \<Rightarrow> bool" where
  "js_le (Fin a) (Fin b) = (a \<le> b)"
| "js_le NaN _ = False"
| "js_le _ NaN = False"
| "js_le NInf _ = True"
| "js_le _ PInf = True"
| "js_le _ NInf = False"
| "js_le PInf _ = False"

definition js_gt :: "jsnum \<Rightarrow> jsnum \<Rightarrow> bool" where
  "js_gt a b = js_lt b a"

definition js_ge :: "jsnum \<Rightarrow> jsnum \<Rightarrow> bool" where
  "js_ge a b = js_le b a"

text \<open>
  \<open>Math.round(x * k) / k\<close>; \<open>Math.round\<close> is \<open>floor (y + 1/2)\<close>. The product is the
  exact rational: where the double \<open>x * k\<close> falls on the other side of a tie, the code's
  result differs from this one in the last rounded digit.
\<close>

fun js_round_to :: "rat \<Rightarrow> jsnum \<Rightarrow> jsnum" where
  "js_round_to k (Fin q) = js_div (Fin (of_int \<lfloor>q * k + 1 / 2\<rfloor>)) (Fin k)"
| "js_round_to k x = x"

definition is_finite :: "jsnum \<Rightarrow> bool" where
  "is_finite x = (case x of Fin _ \<Rightarrow> True | _ \<Rightarrow> False)"

section \<open>Metrics collector (src/packages/deployer/metrics.ts)\<close>

record deployment_metrics =
  successRate :: jsnum
  errorRate :: jsnum
  latency :: jsnum
  throughput :: jsnum
  dm_timestamp :: int
  sampleSize :: nat

record request_metric =
  rm_timestamp :: int
  statusCode :: int
  responseTime :: int
  rm_path :: string

record endpoint_metrics =
  requests :: "request_metric list"
  em_startTime :: int
  lastCleanup :: int

record metrics_collector =
  endpointMetrics :: "string \<rightharpoonup> endpoint_metrics"
  baselines :: "string \<rightharpoonup> deployment_metrics"
  activeCollectors :: "string set"

record metrics_comparison =
  hasBaseline :: bool
  successRateChange :: jsnum
  errorRateChange :: jsnum
  latencyChange :: jsnum
  throughputChange :: jsnum

record thresholds =
  th_successRate :: jsnum
  th_errorRate :: jsnum
  latencyIncrease :: jsnum

record health_checks =
  successRateOk :: bool
  errorRateOk :: bool
  latencyOk :: bool
  sampleSizeOk :: bool

text \<open>
  The entries of \<open>issues\<close>. The source renders each as a message string; the constructor
  stands for the fixed text and carries the number that the text formats.
\<close>

datatype issue =
    SuccessRateTooLow jsnum
  | ErrorRateTooHigh jsnum
  | LatencyIncreased jsnum
  | InsufficientSampleSize

record health_check =
  healthy :: bool
  checks :: health_checks
  hc_metrics :: deployment_metrics
  comparison :: metrics_comparison
  issues :: "issue list"

definition getEmptyMetrics :: "int \<Rightarrow> deployment_metrics" where
  "getEmptyMetrics now =
     \<lparr>successRate = Fin 0, errorRate = Fin 0, latency = Fin 0, throughput = Fin 0,
      dm_timestamp = now, sampleSize = 0\<rparr>"

definition calculateMetrics ::
  "int \<Rightarrow> metrics_collector \<Rightarrow> string \<Rightarrow> rat \<Rightarrow> deployment_metrics option" where
  "calculateMetrics now c endpoint windowSeconds =
     (case endpointMetrics c endpoint of
        None \<Rightarrow> None
      | Some m \<Rightarrow>
          (let cutoffTime = of_int now - windowSeconds * 1000;
               recentRequests = filter (\<lambda>req. cutoffTime \<le> of_int (rm_timestamp req)) (requests m)
           in if length recentRequests = 0 then None
              else
                (let successfulRequests =
                       filter (\<lambda>req. 200 \<le> statusCode req \<and> statusCode req < 400) recentRequests;
                     errorRequests = filter (\<lambda>req. 400 \<le> statusCode req) recentRequests;
                     n = Fin (of_nat (length recentRequests));
                     successRate' = js_div (Fin (of_nat (length successfulRequests))) n;
                     errorRate' = js_div (Fin (of_nat (length errorRequests))) n;
                     latencies = map responseTime recentRequests;
                     averageLatency =
                       js_div (Fin (of_int (sum_list latencies))) (Fin (of_nat (length latencies)));
                     throughput' = js_div n (Fin windowSeconds)
                 in Some \<lparr>successRate = js_round_to 1000 successRate',
                          errorRate = js_round_to 1000 errorRate',
                          latency = js_round_to 100 averageLatency,
                          throughput = js_round_to 100 throughput',
                          dm_timestamp = now,
                          sampleSize = length recentRequests\<rparr>)))"

definition getMetrics :: "int \<Rightarrow> metrics_collector \<Rightarrow> string \<Rightarrow> rat \<Rightarrow> deployment_metrics" where
  "getMetrics now c endpoint windowSeconds =
     (case calculateMetrics now c endpoint windowSeconds of
        None \<Rightarrow> getEmptyMetrics now
      | Some calculatedMetrics \<Rightarrow> calculatedMetrics)"

definition getBaseline :: "metrics_collector \<Rightarrow> string \<Rightarrow> deployment_metrics option" where
  "getBaseline c endpoint = baselines c endpoint"

definition setBaseline ::
  "string \<Rightarrow> deployment_metrics \<Rightarrow> metrics_collector \<Rightarrow> metrics_collector" where
  "setBaseline endpoint m c = c\<lparr>baselines := (baselines c)(endpoint \<mapsto> m)\<rparr>"

text \<open>
  \<open>startCollection\<close> also arms a 5 second timer when the endpoint has no baseline yet; the
  timer's callback is \<open>establishBaseline\<close>, run by the environment.
\<close>

definition startCollection :: "int \<Rightarrow> string \<Rightarrow> metrics_collector \<Rightarrow> metrics_collector" where
  "startCollection now endpoint c =
     (if endpoint \<in> activeCollectors c then c
      else c\<lparr>endpointMetrics :=
                (endpointMetrics c)(endpoint \<mapsto>
                   \<lparr>requests = [], em_startTime = now, lastCleanup = now\<rparr>),
              activeCollectors := insert endpoint (activeCollectors c)\<rparr>)"

definition establishBaseline :: "int \<Rightarrow> string \<Rightarrow> metrics_collector \<Rightarrow> metrics_collector" where
  "establishBaseline now endpoint c =
     (case calculateMetrics now c endpoint 30 of
        None \<Rightarrow> c
      | Some initialMetrics \<Rightarrow> setBaseline endpoint initialMetrics c)"

definition stopCollection :: "string \<Rightarrow> metrics_collector \<Rightarrow> metrics_collector" where
  "stopCollection endpoint c = c\<lparr>activeCollectors := activeCollectors c - {endpoint}\<rparr>"

definition cleanupOldRequests :: "int \<Rightarrow> string \<Rightarrow> metrics_collector \<Rightarrow> metrics_collector" where
  "cleanupOldRequests now endpoint c =
     (case endpointMetrics c endpoint of
        None \<Rightarrow> c
      | Some m \<Rightarrow>
          (let fiveMinutesAgo = now - 5 * 60 * 1000;
               timeFiltered = filter (\<lambda>req. fiveMinutesAgo \<le> rm_timestamp req) (requests m);
               finalRequests =
                 (if 1000 < length timeFiltered
                  then drop (length timeFiltered - 1000) timeFiltered
                  else timeFiltered)
           in c\<lparr>endpointMetrics := (endpointMetrics c)(endpoint \<mapsto> m\<lparr>requests := finalRequests\<rparr>)\<rparr>))"

definition recordRequest ::
  "int \<Rightarrow> string \<Rightarrow> request_metric \<Rightarrow> metrics_collector \<Rightarrow> metrics_collector" where
  "recordRequest now endpoint request c =
     (if endpoint \<notin> activeCollectors c then c
      else
        (case endpointMetrics c endpoint of
           None \<Rightarrow> c
         | Some m \<Rightarrow>
             (let c1 = c\<lparr>endpointMetrics :=
                          (endpointMetrics c)(endpoint \<mapsto> m\<lparr>requests := requests m @ [request]\<rparr>)\<rparr>
              in if 30000 < now - lastCleanup m
                 then
                   (let c2 = cleanupOldRequests now endpoint c1
                    in (case endpointMetrics c2 endpoint of
                          None \<Rightarrow> c2
                        | Some m2 \<Rightarrow>
                            c2\<lparr>endpointMetrics :=
                                 (endpointMetrics c2)(endpoint \<mapsto> m2\<lparr>lastCleanup := now\<rparr>)\<rparr>))
                 else c1)))"

definition compareWithBaseline ::
  "metrics_collector \<Rightarrow> string \<Rightarrow> deployment_metrics \<Rightarrow> metrics_comparison" where
  "compareWithBaseline c endpoint currentMetrics =
     (case getBaseline c endpoint of
        None \<Rightarrow>
          \<lparr>hasBaseline = False, successRateChange = Fin 0, errorRateChange = Fin 0,
           latencyChange = Fin 0, throughputChange = Fin 0\<rparr>
      | Some baseline \<Rightarrow>
          \<lparr>hasBaseline = True,
           successRateChange = js_sub (successRate currentMetrics) (successRate baseline),
           errorRateChange = js_sub (errorRate currentMetrics) (errorRate baseline),
           latencyChange =
             js_div (js_sub (latency currentMetrics) (latency baseline)) (latency baseline),
           throughputChange =
             js_div (js_sub (throughput currentMetrics) (throughput baseline))
               (throughput baseline)\<rparr>)"

definition identifyIssues :: "health_checks \<Rightarrow> metrics_comparison \<Rightarrow> issue list" where
  "identifyIssues chk cmp =
     (if \<not> successRateOk chk then [SuccessRateTooLow (successRateChange cmp)] else []) @
     (if \<not> errorRateOk chk then [ErrorRateTooHigh (errorRateChange cmp)] else []) @
     (if \<not> latencyOk chk then [LatencyIncreased (latencyChange cmp)] else []) @
     (if \<not> sampleSizeOk chk then [InsufficientSampleSize] else [])"

text \<open>\<open>checkHealthThresholds\<close> reads the metrics over the default window of 60 seconds.\<close>

definition checkHealthThresholds ::
  "int \<Rightarrow> metrics_collector \<Rightarrow> string \<Rightarrow> thresholds \<Rightarrow> health_check" where
  "checkHealthThresholds now c endpoint th =
     (let currentMetrics = getMetrics now c endpoint 60;
          cmp = compareWithBaseline c endpoint currentMetrics;
          chk = \<lparr>successRateOk = js_ge (successRate currentMetrics) (th_successRate th),
                 errorRateOk = js_le (errorRate currentMetrics) (th_errorRate th),
                 latencyOk = (\<not> hasBaseline cmp \<or> js_le (latencyChange cmp) (latencyIncrease th)),
                 sampleSizeOk = (10 \<le> sampleSize currentMetrics)\<rparr>;
          ok = (successRateOk chk \<and> errorRateOk chk \<and> latencyOk chk \<and> sampleSizeOk chk)
      in \<lparr>healthy = ok, checks = chk, hc_metrics = currentMetrics, comparison = cmp,
          issues = (if \<not> ok then identifyIssues chk cmp else [])\<rparr>)"

section \<open>Middleware injector (src/packages/deployer/injector.ts)\<close>

record conditions =
  methods :: "string list option"
  paths :: "string list option"
  headers :: "(string \<times> string) list option"

record middleware_definition =
  md_id :: string
  md_name :: string
  code :: string
  targetEndpoint :: string
  priority :: rat
  md_conditions :: "conditions option"

text \<open>
  An Express request as far as the injector reads and writes it: \<open>req.method\<close>,
  \<open>req.path\<close>, the accessor \<open>req.get(header)\<close>, and the two fields the wrapper adds.
\<close>

record request =
  req_method :: string
  req_path :: string
  req_get :: "string \<Rightarrow> string option"
  injectionId :: "string option"
  middlewareName :: "string option"

text \<open>
  One run of a middleware function on a request: the request as it leaves it, the
  arguments of its calls of \<open>next\<close> in order (\<open>None\<close> is \<open>next()\<close>, \<open>Some e\<close> is
  \<open>next(e)\<close> with a truthy error), and the error it throws, if any.
\<close>

record mw_run =
  reqAfter :: request
  nextArgs :: "string option list"
  thrown :: "string option"

text \<open>
  A \<open>Function\<close> value: \<open>fn.length\<close>, \<open>fn.toString()\<close> and what a call does. The source
  text is a string of 8-bit characters.
\<close>

record js_function =
  arity :: nat
  fsource :: string
  run :: "request \<Rightarrow> mw_run"

text \<open>The closure returned by \<open>createWrapperMiddleware\<close>, by the variables it captures.\<close>

record wrapper_closure =
  w_injectionId :: string
  w_definition :: middleware_definition
  w_function :: js_function

record injected_middleware =
  im_id :: string
  im_definition :: middleware_definition
  im_function :: js_function
  wrappedFunction :: wrapper_closure
  deployedAt :: int
  backupPath :: "string option"
  im_active :: bool
  requestCount :: nat
  errorCount :: nat

record hot_deploy_config =
  safeMode :: bool
  validateBeforeDeploy :: bool
  backupPrevious :: bool
  maxConcurrentDeploys :: int

datatype route_kind = RGet | RPost | RPut | RDelete | RUse

text \<open>The Express app is the list of handlers registered on it, oldest first.\<close>

record route =
  r_kind :: route_kind
  r_endpoint :: "string option"
  r_handler :: wrapper_closure

record injector =
  activeMiddleware :: "(string \<times> injected_middleware) list"
  middlewareStack :: "middleware_definition list"
  app :: "route list"
  config :: hot_deploy_config

datatype dangerous_pattern = EvalCall | FunctionCall | ProcessExit | RequireCall

datatype inject_error =
    WrongArity nat
  | DangerousPattern dangerous_pattern
  | CapacityReached int
  | BackupFailed string
  | MiddlewareNotFound string

subsection \<open>The four regular expressions of \<open>validateMiddleware\<close>\<close>

definition js_space :: "char \<Rightarrow> bool" where
  "js_space ch =
     (ch = CHR 0x09 \<or> ch = CHR 0x0A \<or> ch = CHR 0x0B \<or> ch = CHR 0x0C \<or> ch = CHR 0x0D \<or>
      ch = CHR 0x20 \<or> ch = CHR 0xA0)"

definition is_quote :: "char \<Rightarrow> bool" where
  "is_quote ch = (ch = CHR 0x27 \<or> ch = CHR 0x22)"

definition starts_with :: "string \<Rightarrow> string \<Rightarrow> bool" where
  "starts_with p s = (take (length p) s = p)"

definition skip_space :: "string \<Rightarrow> string" where
  "skip_space s = dropWhile js_space s"

text \<open>\<open>kw\s*\(\<close> matched at the start of \<open>s\<close>.\<close>

definition call_at :: "string \<Rightarrow> string \<Rightarrow> bool" where
  "call_at kw s = (starts_with kw s \<and> starts_with ''('' (skip_space (drop (length kw) s)))"

text \<open>\<open>require\s*\(\s*['"][^'"]*['"]\s*\)\<close> matched at the start of \<open>s\<close>.\<close>

definition require_at :: "string \<Rightarrow> bool" where
  "require_at s =
     (starts_with ''require'' s \<and>
      (let r1 = skip_space (drop 7 s)
       in starts_with ''('' r1 \<and>
          (let r2 = skip_space (drop 1 r1)
           in r2 \<noteq> [] \<and> is_quote (hd r2) \<and>
              (let r3 = dropWhile (\<lambda>ch. \<not> is_quote ch) (drop 1 r2)
               in r3 \<noteq> [] \<and> starts_with '')'' (skip_space (drop 1 r3))))))"

fun anywhere :: "(string \<Rightarrow> bool) \<Rightarrow> string \<Rightarrow> bool" where
  "anywhere P [] = P []"
| "anywhere P (ch # s) = (P (ch # s) \<or> anywhere P s)"

fun pattern_test :: "dangerous_pattern \<Rightarrow> string \<Rightarrow> bool" where
  "pattern_test EvalCall s = anywhere (call_at ''eval'') s"
| "pattern_test FunctionCall s = anywhere (call_at ''Function'') s"
| "pattern_test ProcessExit s = anywhere (starts_with ''process.exit'') s"
| "pattern_test RequireCall s = anywhere require_at s"

definition dangerousPatterns :: "dangerous_pattern list" where
  "dangerousPatterns = [EvalCall, FunctionCall, ProcessExit, RequireCall]"

text \<open>
  \<open>validateMiddleware\<close>: \<open>None\<close> when it passes, the error it throws otherwise. Its first
  test, \<open>typeof middlewareFunction !== 'function'\<close>, is false for every value of the
  parameter's type \<open>Function\<close>. The patterns are tried in the order of the source's array.
\<close>

definition validateMiddleware :: "js_function \<Rightarrow> inject_error option" where
  "validateMiddleware middlewareFunction =
     (let functionString = fsource middlewareFunction;
          paramCount = arity middlewareFunction
      in if paramCount \<noteq> 3 then Some (WrongArity paramCount)
         else
           (case filter (\<lambda>pattern. pattern_test pattern functionString) dangerousPatterns of
              [] \<Rightarrow> None
            | pattern # _ \<Rightarrow> Some (DangerousPattern pattern)))"

subsection \<open>Wrapper and registry\<close>

definition matchesConditions :: "request \<Rightarrow> conditions option \<Rightarrow> bool" where
  "matchesConditions req conds =
     (case conds of
        None \<Rightarrow> True
      | Some cs \<Rightarrow>
          (if (case methods cs of None \<Rightarrow> False | Some ms \<Rightarrow> req_method req \<notin> set ms) then False
           else if (case paths cs of
                      None \<Rightarrow> False
                    | Some ps \<Rightarrow> \<not> list_ex (\<lambda>p. starts_with p (req_path req)) ps) then False
           else (case headers cs of
                   None \<Rightarrow> True
                 | Some hs \<Rightarrow>
                     list_all (\<lambda>(headerName, expectedValue).
                                 req_get req headerName = Some expectedValue) hs)))"

record wrapper_result =
  wr_injector :: injector
  wr_request :: request
  wr_next :: "string option list"
  wr_invoked :: bool

definition createWrapperMiddleware ::
  "string \<Rightarrow> middleware_definition \<Rightarrow> js_function \<Rightarrow> wrapper_closure" where
  "createWrapperMiddleware iid definition middlewareFunction =
     \<lparr>w_injectionId = iid, w_definition = definition, w_function = middlewareFunction\<rparr>"

text \<open>
  A call \<open>wrapper(req, res, next)\<close>: the injector and the request afterwards, the calls of
  the continuation \<open>next\<close> it makes, and whether the patch was invoked.
\<close>

definition callWrapper :: "wrapper_closure \<Rightarrow> injector \<Rightarrow> request \<Rightarrow> wrapper_result" where
  "callWrapper w injr req =
     (let pass = \<lparr>wr_injector = injr, wr_request = req, wr_next = [None], wr_invoked = False\<rparr>
      in case map_of (activeMiddleware injr) (w_injectionId w) of
           None \<Rightarrow> pass
         | Some middleware \<Rightarrow>
             if \<not> im_active middleware then pass
             else if \<not> matchesConditions req (md_conditions (w_definition w)) then pass
             else
               (let req1 = req\<lparr>injectionId := Some (w_injectionId w),
                               middlewareName := Some (md_name (w_definition w))\<rparr>;
                    r = run (w_function w) req1;
                    errors = length (filter (\<lambda>a. a \<noteq> None) (nextArgs r)) +
                             (case thrown r of None \<Rightarrow> 0 | Some _ \<Rightarrow> 1);
                    counted = middleware\<lparr>requestCount := requestCount middleware + 1,
                                          errorCount := errorCount middleware + errors\<rparr>
                in \<lparr>wr_injector =
                      injr\<lparr>activeMiddleware :=
                            AList.update (w_injectionId w) counted (activeMiddleware injr)\<rparr>,
                    wr_request = reqAfter r,
                    wr_next = nextArgs r @ (case thrown r of None \<Rightarrow> [] | Some e \<Rightarrow> [Some e]),
                    wr_invoked = True\<rparr>))"

definition toUpperCase :: "string \<Rightarrow> string" where
  "toUpperCase s =
     map (\<lambda>ch. let n = (of_char ch :: nat)
                in if 97 \<le> n \<and> n \<le> 122 then char_of (n - 32) else ch) s"

definition injectIntoExpress :: "middleware_definition \<Rightarrow> wrapper_closure \<Rightarrow> route list \<Rightarrow> route list" where
  "injectIntoExpress definition middleware rs =
     (if targetEndpoint definition \<noteq> []
      then
        (let ms = (case md_conditions definition of
                     None \<Rightarrow> [''POST'']
                   | Some cs \<Rightarrow> (case methods cs of None \<Rightarrow> [''POST''] | Some l \<Rightarrow> l))
         in rs @ map (\<lambda>m. \<lparr>r_kind =
                              (let u = toUpperCase m
                               in if u = ''GET'' then RGet else if u = ''POST'' then RPost
                                  else if u = ''PUT'' then RPut else if u = ''DELETE'' then RDelete
                                  else RUse),
                            r_endpoint = Some (targetEndpoint definition),
                            r_handler = middleware\<rparr>) ms)
      else rs @ [\<lparr>r_kind = RUse, r_endpoint = None, r_handler = middleware\<rparr>])"

text \<open>
  \<open>injectMiddleware\<close>. The fresh \<open>randomUUID()\<close>, the clock and the outcome of
  \<open>createBackup\<close> (a file-system write: the backup's path, or the error it throws) are given
  by the environment. A thrown error is \<open>Inl\<close>, with the injector as the throw leaves it.
\<close>

definition injectMiddleware ::
  "string \<Rightarrow> int \<Rightarrow> string + string \<Rightarrow> middleware_definition \<Rightarrow> js_function \<Rightarrow> injector
     \<Rightarrow> (inject_error + string) \<times> injector" where
  "injectMiddleware iid now backup definition middlewareFunction injr =
     (case (if validateBeforeDeploy (config injr) then validateMiddleware middlewareFunction
            else None) of
        Some e \<Rightarrow> (Inl e, injr)
      | None \<Rightarrow>
          if maxConcurrentDeploys (config injr) \<le> int (length (activeMiddleware injr))
          then (Inl (CapacityReached (maxConcurrentDeploys (config injr))), injr)
          else
            (case (if backupPrevious (config injr) then map_sum id Some backup else Inr None) of
               Inl msg \<Rightarrow> (Inl (BackupFailed msg), injr)
             | Inr backupPath' \<Rightarrow>
                 (let wrappedMiddleware = createWrapperMiddleware iid definition middlewareFunction;
                      injectedMiddleware =
                        \<lparr>im_id = iid, im_definition = definition, im_function = middlewareFunction,
                         wrappedFunction = wrappedMiddleware, deployedAt = now,
                         backupPath = backupPath', im_active = True,
                         requestCount = 0, errorCount = 0\<rparr>
                  in (Inr iid,
                      injr\<lparr>app := injectIntoExpress definition wrappedMiddleware (app injr),
                          activeMiddleware :=
                            AList.update iid injectedMiddleware (activeMiddleware injr),
                          middlewareStack := middlewareStack injr @ [definition]\<rparr>))))"

text \<open>
  \<open>removeMiddleware\<close>. Deleting the backup file may fail; the source catches that error,
  so it leaves no trace in the injector.
\<close>

definition removeMiddleware :: "string \<Rightarrow> injector \<Rightarrow> (inject_error + unit) \<times> injector" where
  "removeMiddleware iid injr =
     (case map_of (activeMiddleware injr) iid of
        None \<Rightarrow> (Inl (MiddlewareNotFound iid), injr)
      | Some middleware \<Rightarrow>
          (Inr (),
           injr\<lparr>activeMiddleware := AList.delete iid (activeMiddleware injr),
               middlewareStack :=
                 filter (\<lambda>m. md_id m \<noteq> md_id (im_definition middleware)) (middlewareStack injr)\<rparr>))"

definition updateMiddleware ::
  "string \<Rightarrow> js_function \<Rightarrow> injector \<Rightarrow> (inject_error + unit) \<times> injector" where
  "updateMiddleware iid newMiddlewareFunction injr =
     (case map_of (activeMiddleware injr) iid of
        None \<Rightarrow> (Inl (MiddlewareNotFound iid), injr)
      | Some existing \<Rightarrow>
          (case (if validateBeforeDeploy (config injr) then validateMiddleware newMiddlewareFunction
                 else None) of
             Some e \<Rightarrow> (Inl e, injr)
           | None \<Rightarrow>
               (Inr (),
                injr\<lparr>activeMiddleware :=
                      AList.update iid
                        (existing\<lparr>im_function := newMiddlewareFunction,
                                  wrappedFunction :=
                                    createWrapperMiddleware iid (im_definition existing)
                                      newMiddlewareFunction\<rparr>)
                        (activeMiddleware injr)\<rparr>)))"

definition getInjectionStatus :: "injector \<Rightarrow> string \<Rightarrow> injected_middleware option" where
  "getInjectionStatus injr iid = map_of (activeMiddleware injr) iid"

definition getAllInjections :: "injector \<Rightarrow> injected_middleware list" where
  "getAllInjections injr = filter im_active (map snd (activeMiddleware injr))"

record injection_statistics =
  totalActive :: nat
  totalRequests :: nat
  totalErrors :: nat
  averageErrorRate :: jsnum
  oldestDeployment :: "int option"

definition getStatistics :: "injector \<Rightarrow> injection_statistics" where
  "getStatistics injr =
     (let active = filter im_active (map snd (activeMiddleware injr))
      in \<lparr>totalActive = length active,
          totalRequests = foldl (\<lambda>sum m. sum + requestCount m) 0 active,
          totalErrors = foldl (\<lambda>sum m. sum + errorCount m) 0 active,
          averageErrorRate =
            (if 0 < length active
             then js_div
                    (foldl (\<lambda>sum m.
                              js_add sum
                                (js_div (Fin (of_nat (errorCount m)))
                                   (Fin (of_nat (max (requestCount m) 1)))))
                       (Fin 0) active)
                    (Fin (of_nat (length active)))
             else Fin 0),
          oldestDeployment =
            (case map deployedAt active of [] \<Rightarrow> None | t # ts \<Rightarrow> Some (foldl min t ts))\<rparr>)"

definition emergencyStop :: "injector \<Rightarrow> injector" where
  "emergencyStop injr =
     injr\<lparr>activeMiddleware :=
           map (\<lambda>(iid, middleware). (iid, middleware\<lparr>im_active := False\<rparr>)) (activeMiddleware injr)\<rparr>"

section \<open>Canary deployer (canary.ts)\<close>

record canary_stage =
  percentage :: rat
  cs_duration :: rat
  successThreshold :: jsnum
  maxErrorRate :: jsnum

record monitoring_config =
  windowSize :: rat
  sampleFrequency :: rat

record deployment_plan =
  dp_id :: string
  fixId :: string
  stages :: "canary_stage list"
  rollbackThresholds :: thresholds
  monitoring :: monitoring_config

text \<open>\<open>Partial<DeploymentPlan>\<close>: every field may be missing.\<close>

record partial_plan =
  pp_id :: "string option"
  pp_fixId :: "string option"
  pp_stages :: "canary_stage list option"
  pp_rollbackThresholds :: "thresholds option"
  pp_monitoring :: "monitoring_config option"

datatype deploy_stage =
  Planning | Deploying | Monitoring | Promoting | Completed | RollingBack | Failed

datatype event_type = StageStart | StageComplete | MetricsCheck | Rollback | ErrorEvent

datatype rollback_kind = Manual | Automatic

text \<open>
  The message and data of a deployment event. The source builds a message string and a
  data object; the constructor stands for the fixed text and carries the values.
\<close>

datatype event_msg =
    DeploymentInitiated string deployment_plan
  | DeployedToTraffic rat int
  | StageMonitoringCompleted nat nat
  | HealthCheckDone nat deployment_metrics bool "issue list"
  | StageFailedHealthChecks nat "issue list"
  | DeploymentCompleted deployment_metrics
  | DeploymentRolledBack rollback_kind deployment_metrics

record deployment_event =
  ev_timestamp :: int
  ev_type :: event_type
  ev_message :: event_msg

record status_metrics =
  baseline :: deployment_metrics
  current :: deployment_metrics
  history :: "deployment_metrics list"

record deployment_status =
  st_id :: string
  stage :: deploy_stage
  currentStage :: int
  trafficPercentage :: rat
  startTime :: int
  lastUpdate :: int
  metrics :: status_metrics
  events :: "deployment_event list"

record feature_flag =
  ff_key :: string
  enabled :: bool
  rolloutPercentage :: rat

text \<open>
  \<open>rollbackFunction\<close> is \<open>None\<close> for \<open>null\<close>; \<open>Some ok\<close> is a function whose promise
  resolves (\<open>ok\<close>) or rejects. The rejection is caught and logged.
\<close>

record active_deployment =
  ad_id :: string
  middleware :: middleware_definition
  plan :: deployment_plan
  status :: deployment_status
  stageStartTime :: int
  rollbackFunction :: "bool option"

record canary_deployer =
  deployments :: "(string \<times> active_deployment) list"
  metricsCollector :: metrics_collector
  featureFlags :: "string \<rightharpoonup> feature_flag"

definition flagKey :: "string \<Rightarrow> string" where
  "flagKey deploymentId = ''deployment_'' @ deploymentId"

text \<open>A write through the reference \<open>this.deployments.get(deploymentId)\<close>.\<close>

definition modify ::
  "string \<Rightarrow> (active_deployment \<Rightarrow> active_deployment) \<Rightarrow> canary_deployer \<Rightarrow> canary_deployer" where
  "modify deploymentId f c = c\<lparr>deployments := AList.map_entry deploymentId f (deployments c)\<rparr>"

definition set_status ::
  "(deployment_status \<Rightarrow> deployment_status) \<Rightarrow> active_deployment \<Rightarrow> active_deployment" where
  "set_status f d = d\<lparr>status := f (status d)\<rparr>"

text \<open>\<open>if (xs.length > n) xs = xs.slice(-n)\<close>.\<close>

definition keepLast :: "nat \<Rightarrow> 'a list \<Rightarrow> 'a list" where
  "keepLast n xs = (if n < length xs then drop (length xs - n) xs else xs)"

definition updateDeployment :: "int \<Rightarrow> string \<Rightarrow> canary_deployer \<Rightarrow> canary_deployer" where
  "updateDeployment now deploymentId c =
     modify deploymentId (set_status (\<lambda>s. s\<lparr>lastUpdate := now\<rparr>)) c"

definition addEvent ::
  "int \<Rightarrow> string \<Rightarrow> event_type \<Rightarrow> event_msg \<Rightarrow> canary_deployer \<Rightarrow> canary_deployer" where
  "addEvent now deploymentId ty msg c =
     (case map_of (deployments c) deploymentId of
        None \<Rightarrow> c
      | Some deployment \<Rightarrow>
          (let kept = keepLast 50
                        (events (status deployment) @
                           [\<lparr>ev_timestamp = now, ev_type = ty, ev_message = msg\<rparr>])
           in updateDeployment now deploymentId
                (modify deploymentId (set_status (\<lambda>s. s\<lparr>events := kept\<rparr>)) c)))"

definition defaultPlan :: "string \<Rightarrow> string \<Rightarrow> deployment_plan" where
  "defaultPlan deploymentId fixId' =
     \<lparr>dp_id = deploymentId, fixId = fixId',
      stages =
        [\<lparr>percentage = 10, cs_duration = 30, successThreshold = Fin (95 / 100),
          maxErrorRate = Fin (5 / 100)\<rparr>,
         \<lparr>percentage = 50, cs_duration = 60, successThreshold = Fin (95 / 100),
          maxErrorRate = Fin (5 / 100)\<rparr>,
         \<lparr>percentage = 100, cs_duration = 60, successThreshold = Fin (95 / 100),
          maxErrorRate = Fin (5 / 100)\<rparr>],
      rollbackThresholds =
        \<lparr>th_successRate = Fin (90 / 100), th_errorRate = Fin (10 / 100),
         latencyIncrease = Fin (50 / 100)\<rparr>,
      monitoring = \<lparr>windowSize = 30, sampleFrequency = 5\<rparr>\<rparr>"

definition createDeploymentPlan :: "string \<Rightarrow> string \<Rightarrow> partial_plan option \<Rightarrow> deployment_plan" where
  "createDeploymentPlan deploymentId fixId' partial =
     (let d = defaultPlan deploymentId fixId'
      in case partial of
           None \<Rightarrow> d
         | Some p \<Rightarrow>
             \<lparr>dp_id = (case pp_id p of None \<Rightarrow> dp_id d | Some v \<Rightarrow> v),
              fixId = (case pp_fixId p of None \<Rightarrow> fixId d | Some v \<Rightarrow> v),
              stages = (case pp_stages p of None \<Rightarrow> stages d | Some v \<Rightarrow> v),
              rollbackThresholds =
                (case pp_rollbackThresholds p of None \<Rightarrow> rollbackThresholds d | Some v \<Rightarrow> v),
              monitoring = (case pp_monitoring p of None \<Rightarrow> monitoring d | Some v \<Rightarrow> v)\<rparr>)"

text \<open>
  \<open>deployCanary\<close> up to its call of \<open>processDeployment\<close>; the fresh \<open>randomUUID()\<close> and
  the clock come from the environment.
\<close>

definition deployCanary ::
  "string \<Rightarrow> int \<Rightarrow> middleware_definition \<Rightarrow> partial_plan option \<Rightarrow> canary_deployer
     \<Rightarrow> canary_deployer" where
  "deployCanary deploymentId now mw partial c =
     (let fullPlan = createDeploymentPlan deploymentId (md_id mw) partial;
          st = \<lparr>st_id = deploymentId, stage = Planning, currentStage = - 1,
                trafficPercentage = 0, startTime = now, lastUpdate = now,
                metrics =
                  \<lparr>baseline =
                     (case getBaseline (metricsCollector c) (targetEndpoint mw) of
                        None \<Rightarrow> getEmptyMetrics now
                      | Some b \<Rightarrow> b),
                   current = getEmptyMetrics now, history = []\<rparr>,
                events = []\<rparr>;
          activeDeployment =
            \<lparr>ad_id = deploymentId, middleware = mw, plan = fullPlan, status = st,
             stageStartTime = 0, rollbackFunction = None\<rparr>
      in addEvent now deploymentId StageStart (DeploymentInitiated deploymentId fullPlan)
           (c\<lparr>deployments := AList.update deploymentId activeDeployment (deployments c)\<rparr>))"

fun findIndex :: "('a \<Rightarrow> bool) \<Rightarrow> 'a list \<Rightarrow> int" where
  "findIndex P [] = - 1"
| "findIndex P (x # xs) =
     (if P x then 0 else (let i = findIndex P xs in if i < 0 then - 1 else i + 1))"

definition deployToPercentage ::
  "int \<Rightarrow> string \<Rightarrow> rat \<Rightarrow> canary_stage \<Rightarrow> canary_deployer \<Rightarrow> canary_deployer" where
  "deployToPercentage now deploymentId pct stg c =
     (case map_of (deployments c) deploymentId of
        None \<Rightarrow> c
      | Some deployment \<Rightarrow>
          (let idx = findIndex (\<lambda>s. percentage s = pct) (stages (plan deployment));
               c1 = c\<lparr>featureFlags :=
                        (featureFlags c)(flagKey deploymentId \<mapsto>
                           \<lparr>ff_key = flagKey deploymentId, enabled = True,
                            rolloutPercentage = pct\<rparr>)\<rparr>;
               c2 = modify deploymentId
                      (\<lambda>d. (set_status
                               (\<lambda>s. s\<lparr>currentStage := idx, trafficPercentage := pct,
                                       stage := Monitoring\<rparr>) d)\<lparr>stageStartTime := now\<rparr>) c1
           in addEvent now deploymentId StageStart (DeployedToTraffic pct idx)
                (updateDeployment now deploymentId c2)))"

subsection \<open>Monitoring one stage\<close>

datatype fail_reason = DeploymentNotFound | HealthCheckFailed "issue list" | MonitoringTimeout

datatype stage_result = StageOk | StageFailed fail_reason

record monitor_state =
  checksCompleted :: nat
  lastCheckTime :: int

text \<open>
  One run of the \<open>setInterval\<close> callback of \<open>monitorStage\<close> at time \<open>now\<close>: the value the
  promise is resolved with, if this run resolves it.
\<close>

definition monitorTick ::
  "int \<Rightarrow> string \<Rightarrow> canary_stage \<Rightarrow> nat \<Rightarrow> monitor_state \<Rightarrow> canary_deployer
     \<Rightarrow> stage_result option \<times> monitor_state \<times> canary_deployer" where
  "monitorTick now deploymentId stg stageIndex ms c =
     (case map_of (deployments c) deploymentId of
        None \<Rightarrow> (None, ms, c)
      | Some deployment \<Rightarrow>
          (let endpoint = targetEndpoint (middleware deployment);
               monitoringDuration = cs_duration stg * 1000;
               checkInterval = sampleFrequency (monitoring (plan deployment)) * 1000
           in if monitoringDuration \<le> of_int (now - stageStartTime deployment)
              then (Some StageOk, ms,
                    addEvent now deploymentId StageComplete
                      (StageMonitoringCompleted stageIndex (checksCompleted ms)) c)
              else if checkInterval \<le> of_int (now - lastCheckTime ms)
              then
                (let ms1 = \<lparr>checksCompleted = checksCompleted ms + 1, lastCheckTime = now\<rparr>;
                     currentMetrics =
                       getMetrics now (metricsCollector c) endpoint
                         (windowSize (monitoring (plan deployment)));
                     kept = keepLast 20 (history (metrics (status deployment)) @ [currentMetrics]);
                     c1 = updateDeployment now deploymentId
                            (modify deploymentId
                               (set_status
                                  (\<lambda>s. s\<lparr>metrics :=
                                           (metrics s)\<lparr>current := currentMetrics,
                                                       history := kept\<rparr>\<rparr>)) c);
                     healthCheck =
                       checkHealthThresholds now (metricsCollector c1) endpoint
                         (rollbackThresholds (plan deployment));
                     c2 = addEvent now deploymentId MetricsCheck
                            (HealthCheckDone (checksCompleted ms1) currentMetrics
                               (healthy healthCheck) (issues healthCheck)) c1
                 in if \<not> healthy healthCheck
                    then (Some (StageFailed (HealthCheckFailed (issues healthCheck))), ms1,
                          addEvent now deploymentId Rollback
                            (StageFailedHealthChecks stageIndex (issues healthCheck)) c2)
                    else (None, ms1, c2))
              else (None, ms, c)))"

text \<open>
  What the environment does during a stage: a list of timer ticks, each with its time and
  the requests that the metrics middleware recorded since the tick before
  (\<open>createMetricsMiddleware\<close> records a request under its path, at its own timestamp).
\<close>

type_synonym tick = "int \<times> request_metric list"

definition recordArrivals :: "request_metric list \<Rightarrow> canary_deployer \<Rightarrow> canary_deployer" where
  "recordArrivals rs c =
     c\<lparr>metricsCollector :=
         foldl (\<lambda>mc r. recordRequest (rm_timestamp r) (rm_path r) r mc) (metricsCollector c) rs\<rparr>"

text \<open>
  The ticks run until one resolves the promise. When the ticks are used up without a
  resolution, the safety timeout resolves it with a failure.
\<close>

fun monitorLoop ::
  "string \<Rightarrow> canary_stage \<Rightarrow> nat \<Rightarrow> tick list \<Rightarrow> monitor_state \<Rightarrow> canary_deployer
     \<Rightarrow> stage_result \<times> canary_deployer" where
  "monitorLoop deploymentId stg stageIndex [] ms c = (StageFailed MonitoringTimeout, c)"
| "monitorLoop deploymentId stg stageIndex ((now, arrivals) # ts) ms c =
     (case monitorTick now deploymentId stg stageIndex ms (recordArrivals arrivals c) of
        (Some r, _, c') \<Rightarrow> (r, c')
      | (None, ms', c') \<Rightarrow> monitorLoop deploymentId stg stageIndex ts ms' c')"

definition monitorStage ::
  "string \<Rightarrow> canary_stage \<Rightarrow> nat \<Rightarrow> tick list \<Rightarrow> canary_deployer
     \<Rightarrow> stage_result \<times> canary_deployer" where
  "monitorStage deploymentId stg stageIndex ts c =
     (case map_of (deployments c) deploymentId of
        None \<Rightarrow> (StageFailed DeploymentNotFound, c)
      | Some _ \<Rightarrow>
          monitorLoop deploymentId stg stageIndex ts \<lparr>checksCompleted = 0, lastCheckTime = 0\<rparr> c)"

subsection \<open>Completion and rollback\<close>

definition completeDeployment :: "int \<Rightarrow> string \<Rightarrow> canary_deployer \<Rightarrow> canary_deployer" where
  "completeDeployment now deploymentId c =
     (case map_of (deployments c) deploymentId of
        None \<Rightarrow> c
      | Some deployment \<Rightarrow>
          (let c1 = updateDeployment now deploymentId
                      (modify deploymentId
                         (set_status (\<lambda>s. s\<lparr>stage := Completed, trafficPercentage := 100\<rparr>)) c);
               c2 = addEvent now deploymentId StageComplete
                      (DeploymentCompleted (current (metrics (status deployment)))) c1
           in c2\<lparr>metricsCollector :=
                   stopCollection (targetEndpoint (middleware deployment)) (metricsCollector c2)\<rparr>))"

text \<open>
  \<open>rollbackDeployment\<close> in its two halves: up to the call of the rollback function
  (state \<open>rolling-back\<close>, the feature flag deleted), and from there to the end.
\<close>

definition rollbackBegin :: "int \<Rightarrow> string \<Rightarrow> canary_deployer \<Rightarrow> canary_deployer" where
  "rollbackBegin now deploymentId c =
     (let c1 = updateDeployment now deploymentId
                 (modify deploymentId (set_status (\<lambda>s. s\<lparr>stage := RollingBack\<rparr>)) c)
      in c1\<lparr>featureFlags := (featureFlags c1)(flagKey deploymentId := None)\<rparr>)"

definition rollbackFinish ::
  "int \<Rightarrow> string \<Rightarrow> rollback_kind \<Rightarrow> canary_deployer \<Rightarrow> canary_deployer" where
  "rollbackFinish now deploymentId trigger c =
     (case map_of (deployments c) deploymentId of
        None \<Rightarrow> c
      | Some deployment \<Rightarrow>
          (let c1 = updateDeployment now deploymentId
                      (modify deploymentId
                         (set_status (\<lambda>s. s\<lparr>stage := Failed, trafficPercentage := 0\<rparr>)) c);
               c2 = addEvent now deploymentId Rollback
                      (DeploymentRolledBack trigger (current (metrics (status deployment)))) c1
           in c2\<lparr>metricsCollector :=
                   stopCollection (targetEndpoint (middleware deployment)) (metricsCollector c2)\<rparr>))"

definition rollbackDeployment ::
  "int \<Rightarrow> string \<Rightarrow> rollback_kind \<Rightarrow> canary_deployer \<Rightarrow> canary_deployer" where
  "rollbackDeployment now deploymentId trigger c =
     (case map_of (deployments c) deploymentId of
        None \<Rightarrow> c
      | Some _ \<Rightarrow> rollbackFinish now deploymentId trigger (rollbackBegin now deploymentId c))"

definition getDeploymentStatus :: "canary_deployer \<Rightarrow> string \<Rightarrow> deployment_status option" where
  "getDeploymentStatus c deploymentId = map_option status (map_of (deployments c) deploymentId)"

definition getActiveDeployments :: "canary_deployer \<Rightarrow> deployment_status list" where
  "getActiveDeployments c = map (\<lambda>(_, d). status d) (deployments c)"

text \<open>\<open>shouldUseNewMiddleware\<close>, with the value of \<open>Math.random() * 100\<close> given.\<close>

definition shouldUseNewMiddleware :: "canary_deployer \<Rightarrow> string \<Rightarrow> rat \<Rightarrow> bool" where
  "shouldUseNewMiddleware c deploymentId randomValue =
     (case featureFlags c (flagKey deploymentId) of
        None \<Rightarrow> False
      | Some flag \<Rightarrow> if \<not> enabled flag then False else randomValue < rolloutPercentage flag)"

subsection \<open>The deployment process\<close>

text \<open>
  What the environment gives stage \<open>i\<close>: the time at which the stage is deployed and the
  ticks of its monitoring.
\<close>

record stage_env =
  deployAt :: int
  ticks :: "tick list"

text \<open>
  \<open>processDeployment\<close> returns the deployer after each of its steps, in order: after the
  switch to \<open>deploying\<close>, and for every stage after \<open>deployToPercentage\<close> and after
  \<open>monitorStage\<close>, then after \<open>completeDeployment\<close> or \<open>rollbackDeployment\<close>
  (at time \<open>fin\<close>). The last entry is the deployer when the process ends.
\<close>

fun processStages ::
  "string \<Rightarrow> int \<Rightarrow> canary_stage list \<Rightarrow> nat \<Rightarrow> (nat \<Rightarrow> stage_env) \<Rightarrow> canary_deployer
     \<Rightarrow> canary_deployer list" where
  "processStages deploymentId fin [] stageIndex env c = [completeDeployment fin deploymentId c]"
| "processStages deploymentId fin (stg # rest) stageIndex env c =
     (let c1 = deployToPercentage (deployAt (env stageIndex)) deploymentId (percentage stg) stg c;
          (stageResult, c2) = monitorStage deploymentId stg stageIndex (ticks (env stageIndex)) c1
      in if stageResult \<noteq> StageOk
         then [c1, c2, rollbackDeployment fin deploymentId Automatic c2]
         else c1 # c2 # processStages deploymentId fin rest (stageIndex + 1) env c2)"

text \<open>
  What \<open>processDeployment\<close> still has to do once stage \<open>stageIndex\<close> has been
  deployed and its \<open>monitorStage\<close> has been called: the timer ticks of that stage, then
  the rollback or the remaining stages. It is the rest of the loop body of
  \<open>processStages\<close> after \<open>deployToPercentage\<close>; other tasks (a rollback monitor, an
  emergency rollback) may run between \<open>deployToPercentage\<close> and the first tick.
\<close>

definition continueDeployment ::
  "string \<Rightarrow> int \<Rightarrow> canary_stage \<Rightarrow> canary_stage list \<Rightarrow> nat \<Rightarrow> (nat \<Rightarrow> stage_env)
     \<Rightarrow> canary_deployer \<Rightarrow> canary_deployer list" where
  "continueDeployment deploymentId fin stg rest stageIndex env c1 =
     (let (stageResult, c2) = monitorStage deploymentId stg stageIndex (ticks (env stageIndex)) c1
      in if stageResult \<noteq> StageOk
         then [c2, rollbackDeployment fin deploymentId Automatic c2]
         else c2 # processStages deploymentId fin rest (stageIndex + 1) env c2)"

text \<open>The part of \<open>processDeployment\<close> before its loop over the stages.\<close>

definition beginDeployment :: "int \<Rightarrow> string \<Rightarrow> canary_deployer \<Rightarrow> canary_deployer" where
  "beginDeployment now deploymentId c =
     (case map_of (deployments c) deploymentId of
        None \<Rightarrow> c
      | Some deployment \<Rightarrow>
          (let c1 = updateDeployment now deploymentId
                      (modify deploymentId (set_status (\<lambda>s. s\<lparr>stage := Deploying\<rparr>)) c)
           in c1\<lparr>metricsCollector :=
                   startCollection now (targetEndpoint (middleware deployment))
                     (metricsCollector c1)\<rparr>))"

definition processDeployment ::
  "int \<Rightarrow> string \<Rightarrow> (nat \<Rightarrow> stage_env) \<Rightarrow> int \<Rightarrow> canary_deployer \<Rightarrow> canary_deployer list" where
  "processDeployment now deploymentId env fin c =
     (case map_of (deployments c) deploymentId of
        None \<Rightarrow> [c]
      | Some deployment \<Rightarrow>
          (let c2 = beginDeployment now deploymentId c
           in c2 # processStages deploymentId fin (stages (plan deployment)) 0 env c2))"

section \<open>Rollback manager (src/packages/deployer/rollback.ts)\<close>

datatype metric_kind = ErrorRate | ResponseTime | SuccessRate

record rollback_trigger =
  metric :: metric_kind
  threshold :: jsnum
  rt_duration :: rat

datatype rollback_strategy = Immediate | Gradual

datatype plan_trigger = PlanManual | PlanAutomatic | PlanTimeout

record rollback_plan =
  rp_id :: string
  rp_deploymentId :: string
  rp_trigger :: plan_trigger
  strategy :: rollback_strategy
  preserveData :: bool
  backupLocation :: "string option"
  triggers :: "rollback_trigger list option"

text \<open>
  A violation. Its \<open>reason\<close> text is a rendering of the trigger and the value, which the
  record carries.
\<close>

record rollback_violation =
  rv_timestamp :: int
  rv_trigger :: rollback_trigger
  currentValue :: jsnum

record rollback_monitor =
  mon_id :: string
  mon_deploymentId :: string
  rollbackPlan :: rollback_plan
  mon_startTime :: int
  mon_active :: bool
  mon_checks :: nat
  lastCheck :: int
  violations :: "rollback_violation list"

datatype rollback_reason =
    GivenReason string
  | TriggeredBy "rollback_violation list"
  | HealthCheckError string

record rollback_record =
  rr_id :: string
  rr_deploymentId :: string
  rr_trigger :: rollback_kind
  rr_reason :: rollback_reason
  rr_startTime :: int
  rr_endTime :: int
  rr_success :: bool
  rr_strategy :: rollback_strategy

datatype rollback_error = NoMonitorFound string | StatusNotFound

text \<open>
  The manager holds references to an injector, a canary deployer and a metrics collector.
  \<open>SelfHealingDeployer\<close> builds the deployer and the manager on one collector, so the
  manager's collector is the deployer's.
\<close>

record rollback_manager =
  mgr_injector :: injector
  canaryDeployer :: canary_deployer
  monitors :: "(string \<times> rollback_monitor) list"
  rollbackHistory :: "rollback_record list"

definition startMonitoring ::
  "string \<Rightarrow> int \<Rightarrow> string \<Rightarrow> rollback_plan \<Rightarrow> rollback_manager \<Rightarrow> rollback_manager" where
  "startMonitoring uuid now deploymentId rp mgr =
     mgr\<lparr>monitors :=
           AList.update deploymentId
             \<lparr>mon_id = uuid, mon_deploymentId = deploymentId, rollbackPlan = rp,
              mon_startTime = now, mon_active = True, mon_checks = 0, lastCheck = 0,
              violations = []\<rparr>
             (monitors mgr)\<rparr>"

definition stopMonitoring :: "string \<Rightarrow> rollback_manager \<Rightarrow> rollback_manager" where
  "stopMonitoring deploymentId mgr = mgr\<lparr>monitors := AList.delete deploymentId (monitors mgr)\<rparr>"

text \<open>
  The body of the loop of \<open>evaluateRollbackTriggers\<close>, for one trigger: the \<open>switch\<close>
  sets \<open>currentValue\<close> (\<open>observed\<close>) and \<open>violated\<close>.
\<close>

definition observed :: "deployment_metrics \<Rightarrow> rollback_trigger \<Rightarrow> jsnum" where
  "observed currentMetrics trigger =
     (case metric trigger of
        ErrorRate \<Rightarrow> errorRate currentMetrics
      | SuccessRate \<Rightarrow> successRate currentMetrics
      | ResponseTime \<Rightarrow> latency currentMetrics)"

definition violated :: "deployment_metrics \<Rightarrow> rollback_trigger \<Rightarrow> bool" where
  "violated currentMetrics trigger =
     (case metric trigger of
        ErrorRate \<Rightarrow> js_gt (errorRate currentMetrics) (threshold trigger)
      | SuccessRate \<Rightarrow> js_lt (successRate currentMetrics) (threshold trigger)
      | ResponseTime \<Rightarrow> js_gt (latency currentMetrics) (threshold trigger))"

definition checkTrigger ::
  "int \<Rightarrow> deployment_metrics \<Rightarrow> rollback_trigger \<Rightarrow> rollback_violation list" where
  "checkTrigger now currentMetrics trigger =
     (if violated currentMetrics trigger
      then [\<lparr>rv_timestamp = now, rv_trigger = trigger,
             currentValue = observed currentMetrics trigger\<rparr>]
      else [])"

definition evaluateRollbackTriggers ::
  "int \<Rightarrow> rollback_manager \<Rightarrow> string \<Rightarrow> deployment_metrics \<Rightarrow> rollback_violation list" where
  "evaluateRollbackTriggers now mgr deploymentId currentMetrics =
     (case map_of (monitors mgr) deploymentId of
        None \<Rightarrow> []
      | Some monitor \<Rightarrow>
          (case triggers (rollbackPlan monitor) of
             None \<Rightarrow> []
           | Some ts \<Rightarrow> concat (map (checkTrigger now currentMetrics) ts)))"

definition isCritical :: "rollback_violation \<Rightarrow> bool" where
  "isCritical v =
     ((metric (rv_trigger v) = ErrorRate \<and> js_gt (currentValue v) (Fin (1 / 2))) \<or>
      (metric (rv_trigger v) = SuccessRate \<and> js_lt (currentValue v) (Fin (1 / 2))))"

definition shouldTriggerRollback ::
  "int \<Rightarrow> rollback_monitor \<Rightarrow> rollback_violation list \<Rightarrow> bool" where
  "shouldTriggerRollback now monitor vs =
     (let criticalViolations = filter isCritical vs
      in if 0 < length criticalViolations then True
         else
           (let recentViolations =
                  filter (\<lambda>v. now - rv_timestamp v < 60000) (violations monitor);
                sustainedViolations =
                  filter (\<lambda>v. 3 \<le> length (filter (\<lambda>rv. metric (rv_trigger rv) =
                                                         metric (rv_trigger v))
                                              recentViolations)) vs
            in if 0 < length sustainedViolations then True else False))"

text \<open>
  \<open>executeRollback\<close>. Both strategies end in \<open>canaryDeployer.rollbackDeployment\<close>
  (\<open>gradualRollback\<close> calls \<open>immediateRollback\<close>), which does not throw, so the record
  written is the one of the successful path.
\<close>

definition executeRollback ::
  "string \<Rightarrow> int \<Rightarrow> string \<Rightarrow> rollback_kind \<Rightarrow> rollback_reason \<Rightarrow> rollback_manager
     \<Rightarrow> (rollback_error + unit) \<times> rollback_manager" where
  "executeRollback rollbackId now deploymentId trigger reason mgr =
     (case map_of (monitors mgr) deploymentId of
        None \<Rightarrow> (Inl (NoMonitorFound deploymentId), mgr)
      | Some monitor \<Rightarrow>
          (let cd = rollbackDeployment now deploymentId Automatic (canaryDeployer mgr);
               record' =
                 \<lparr>rr_id = rollbackId, rr_deploymentId = deploymentId, rr_trigger = trigger,
                  rr_reason = reason, rr_startTime = now, rr_endTime = now, rr_success = True,
                  rr_strategy = strategy (rollbackPlan monitor)\<rparr>
           in (Inr (),
               mgr\<lparr>canaryDeployer := cd,
                   rollbackHistory := rollbackHistory mgr @ [record'],
                   monitors := AList.delete deploymentId (monitors mgr)\<rparr>)))"

definition manualRollback ::
  "string \<Rightarrow> int \<Rightarrow> string \<Rightarrow> string \<Rightarrow> rollback_manager
     \<Rightarrow> (rollback_error + unit) \<times> rollback_manager" where
  "manualRollback rollbackId now deploymentId reason mgr =
     (case map_of (monitors mgr) deploymentId of
        None \<Rightarrow> (Inl (NoMonitorFound deploymentId), mgr)
      | Some _ \<Rightarrow> executeRollback rollbackId now deploymentId Manual (GivenReason reason) mgr)"

definition extractEndpointFromDeployment :: "deployment_status \<Rightarrow> string" where
  "extractEndpointFromDeployment deployment = ''/api/signup''"

text \<open>
  One poll. The result says whether the poll decided to roll back; a thrown error is
  \<open>Inl\<close>. \<open>rollbackId\<close> is the \<open>randomUUID()\<close> that \<open>executeRollback\<close> would draw.
\<close>

definition performHealthCheck ::
  "string \<Rightarrow> int \<Rightarrow> string \<Rightarrow> rollback_manager \<Rightarrow> (rollback_error + bool) \<times> rollback_manager" where
  "performHealthCheck rollbackId now deploymentId mgr =
     (case map_of (monitors mgr) deploymentId of
        None \<Rightarrow> (Inr False, mgr)
      | Some monitor \<Rightarrow>
          (let mgr1 = mgr\<lparr>monitors :=
                           AList.update deploymentId
                             (monitor\<lparr>mon_checks := mon_checks monitor + 1, lastCheck := now\<rparr>)
                             (monitors mgr)\<rparr>
           in case getDeploymentStatus (canaryDeployer mgr1) deploymentId of
                None \<Rightarrow> (Inl StatusNotFound, mgr1)
              | Some deploymentStatus \<Rightarrow>
                  if stage deploymentStatus = Completed \<or> stage deploymentStatus = Failed
                  then (Inr False, stopMonitoring deploymentId mgr1)
                  else
                    (let endpoint = extractEndpointFromDeployment deploymentStatus;
                         currentMetrics =
                           getMetrics now (metricsCollector (canaryDeployer mgr1)) endpoint 30;
                         vs = evaluateRollbackTriggers now mgr1 deploymentId currentMetrics
                     in if 0 < length vs
                        then
                          (let monitor2 =
                                 monitor\<lparr>mon_checks := mon_checks monitor + 1, lastCheck := now,
                                         violations := violations monitor @ vs\<rparr>;
                               mgr2 = mgr1\<lparr>monitors :=
                                             AList.update deploymentId monitor2 (monitors mgr1)\<rparr>
                           in if shouldTriggerRollback now monitor2 vs
                              then
                                (case executeRollback rollbackId now deploymentId Automatic
                                        (TriggeredBy vs) mgr2 of
                                   (Inl e, m) \<Rightarrow> (Inl e, m)
                                 | (Inr _, m) \<Rightarrow> (Inr True, m))
                              else (Inr False, mgr2))
                        else (Inr False, mgr1))))"

text \<open>
  One run of the \<open>setInterval\<close> callback of \<open>monitorDeployment\<close>: a health check that
  throws is answered by a rollback.
\<close>

definition monitorDeploymentTick ::
  "string \<Rightarrow> int \<Rightarrow> string \<Rightarrow> rollback_manager \<Rightarrow> rollback_manager" where
  "monitorDeploymentTick rollbackId now deploymentId mgr =
     (case map_of (monitors mgr) deploymentId of
        None \<Rightarrow> mgr
      | Some currentMonitor \<Rightarrow>
          if \<not> mon_active currentMonitor then mgr
          else
            (case performHealthCheck rollbackId now deploymentId mgr of
               (Inr _, mgr') \<Rightarrow> mgr'
             | (Inl e, mgr') \<Rightarrow>
                 snd (executeRollback rollbackId now deploymentId Automatic
                        (HealthCheckError ''Deployment status not found'') mgr')))"

definition emergencyRollbackAll :: "int \<Rightarrow> rollback_manager \<Rightarrow> rollback_manager" where
  "emergencyRollbackAll now mgr =
     (let activeDeployments = getActiveDeployments (canaryDeployer mgr);
          toRollBack = filter (\<lambda>d. stage d \<noteq> Completed \<and> stage d \<noteq> Failed) activeDeployments;
          cd = foldl (\<lambda>c deployment. rollbackDeployment now (st_id deployment) Automatic c)
                 (canaryDeployer mgr) toRollBack
      in mgr\<lparr>canaryDeployer := cd, mgr_injector := emergencyStop (mgr_injector mgr)\<rparr>)"

record breaker_thresholds =
  cb_errorRate :: jsnum
  cb_duration :: rat

text \<open>One run of the circuit breaker's \<open>setInterval\<close> callback; the flag says it fired.\<close>

definition circuitBreakerCheck ::
  "int \<Rightarrow> string \<Rightarrow> breaker_thresholds \<Rightarrow> rollback_manager \<Rightarrow> bool \<times> rollback_manager" where
  "circuitBreakerCheck now endpoint th mgr =
     (let m = getMetrics now (metricsCollector (canaryDeployer mgr)) endpoint (cb_duration th)
      in if js_gt (errorRate m) (cb_errorRate th) \<and> 10 < sampleSize m
         then (True, emergencyRollbackAll now mgr)
         else (False, mgr))"

section \<open>The effect of an operation on one deployment\<close>

text \<open>
  The canary deployer's operations change one entry of \<open>deployments\<close>. The functions
  below give the entry after \<open>addEvent\<close>, \<open>deployToPercentage\<close>, \<open>completeDeployment\<close>
  and \<open>rollbackDeployment\<close>, from the entry before.
\<close>

definition logged ::
  "int \<Rightarrow> event_type \<Rightarrow> event_msg \<Rightarrow> active_deployment \<Rightarrow> active_deployment" where
  "logged now ty msg =
     set_status
       (\<lambda>s. s\<lparr>events :=
                 keepLast 50
                   (events s @ [\<lparr>ev_timestamp = now, ev_type = ty, ev_message = msg\<rparr>]),
               lastUpdate := now\<rparr>)"

definition deployed :: "int \<Rightarrow> rat \<Rightarrow> active_deployment \<Rightarrow> active_deployment" where
  "deployed now pct d =
     (let idx = findIndex (\<lambda>s. percentage s = pct) (stages (plan d))
      in logged now StageStart (DeployedToTraffic pct idx)
           ((set_status
               (\<lambda>s. s\<lparr>currentStage := idx, trafficPercentage := pct, stage := Monitoring,
                       lastUpdate := now\<rparr>) d)\<lparr>stageStartTime := now\<rparr>))"

definition completed :: "int \<Rightarrow> active_deployment \<Rightarrow> active_deployment" where
  "completed now d =
     logged now StageComplete (DeploymentCompleted (current (metrics (status d))))
       (set_status (\<lambda>s. s\<lparr>stage := Completed, trafficPercentage := 100, lastUpdate := now\<rparr>) d)"

definition rolledBack :: "int \<Rightarrow> rollback_kind \<Rightarrow> active_deployment \<Rightarrow> active_deployment" where
  "rolledBack now trigger d =
     logged now Rollback (DeploymentRolledBack trigger (current (metrics (status d))))
       (set_status (\<lambda>s. s\<lparr>stage := Failed, trafficPercentage := 0, lastUpdate := now\<rparr>) d)"

text \<open>The fields of a deployment that monitoring a stage leaves alone.\<close>

definition core ::
  "active_deployment \<Rightarrow> deploy_stage \<times> rat \<times> deployment_plan \<times> middleware_definition \<times> int" where
  "core d =
     (stage (status d), trafficPercentage (status d), plan d, middleware d, stageStartTime d)"

text \<open>State and traffic percentage of deployment \<open>k\<close>, as a status poll would read them.\<close>

definition view :: "string \<Rightarrow> canary_deployer \<Rightarrow> (deploy_stage \<times> rat) option" where
  "view k c =
     map_option (\<lambda>d. (stage (status d), trafficPercentage (status d))) (map_of (deployments c) k)"

text \<open>Every deployment is registered under its own id (\<open>deployCanary\<close> registers it so).\<close>

definition ids_consistent :: "canary_deployer \<Rightarrow> bool" where
  "ids_consistent c = list_all (\<lambda>(k, d). st_id (status d) = k) (deployments c)"

section \<open>Example states\<close>

definition collector0 :: metrics_collector where
  "collector0 = \<lparr>endpointMetrics = Map.empty, baselines = Map.empty, activeCollectors = {}\<rparr>"

definition fn_ok :: js_function where
  "fn_ok = \<lparr>arity = 3, fsource = ''(req, res, next) => { next(); }'',
            run = (\<lambda>req. \<lparr>reqAfter = req, nextArgs = [None], thrown = None\<rparr>)\<rparr>"

definition fn_arity4 :: js_function where
  "fn_arity4 = \<lparr>arity = 4, fsource = ''(err, req, res, next) => { next(); }'',
                run = (\<lambda>req. \<lparr>reqAfter = req, nextArgs = [None], thrown = None\<rparr>)\<rparr>"

definition definition0 :: middleware_definition where
  "definition0 =
     \<lparr>md_id = ''middleware_1'', md_name = ''quick-fix'', code = ''next()'',
      targetEndpoint = ''/api/signup'', priority = 1,
      md_conditions =
        Some \<lparr>methods = Some [''POST''], paths = Some [''/api/signup''], headers = None\<rparr>\<rparr>"

text \<open>An injector with the production configuration (at most one concurrent deploy).\<close>

definition injector0 :: injector where
  "injector0 =
     \<lparr>activeMiddleware = [], middlewareStack = [], app = [],
      config = \<lparr>safeMode = True, validateBeforeDeploy = True, backupPrevious = True,
                maxConcurrentDeploys = 1\<rparr>\<rparr>"

definition injector1 :: injector where
  "injector1 =
     snd (injectMiddleware ''inj-1'' 1000 (Inr ''backups/middleware/middleware_1.json'')
            definition0 fn_ok injector0)"

definition request0 :: request where
  "request0 = \<lparr>req_method = ''POST'', req_path = ''/api/signup'', req_get = (\<lambda>h. None),
               injectionId = None, middlewareName = None\<rparr>"

definition ok_request :: "int \<Rightarrow> request_metric" where
  "ok_request t =
     \<lparr>rm_timestamp = t, statusCode = 200, responseTime = 20, rm_path = ''/api/signup''\<rparr>"

definition failed_request :: "int \<Rightarrow> request_metric" where
  "failed_request t =
     \<lparr>rm_timestamp = t, statusCode = 500, responseTime = 20, rm_path = ''/api/signup''\<rparr>"

text \<open>A collector that has seen five successful requests on \<open>/api/signup\<close>.\<close>

definition collector5 :: metrics_collector where
  "collector5 =
     foldl (\<lambda>c r. recordRequest (rm_timestamp r) (rm_path r) r c)
       (startCollection 90000 ''/api/signup'' collector0)
       (map ok_request [95000, 96000, 97000, 98000, 99000])"

text \<open>The rollback thresholds of the default plan.\<close>

definition thresholds0 :: thresholds where
  "thresholds0 =
     \<lparr>th_successRate = Fin (90 / 100), th_errorRate = Fin (10 / 100),
      latencyIncrease = Fin (50 / 100)\<rparr>"

definition canary0 :: canary_deployer where
  "canary0 = \<lparr>deployments = [], metricsCollector = collector0, featureFlags = Map.empty\<rparr>"

definition stage_at :: "rat \<Rightarrow> canary_stage" where
  "stage_at pct =
     \<lparr>percentage = pct, cs_duration = 30, successThreshold = Fin (95 / 100),
      maxErrorRate = Fin (5 / 100)\<rparr>"

text \<open>A plan given by the caller whose second stage is smaller than its first.\<close>

definition descending_plan :: partial_plan where
  "descending_plan =
     \<lparr>pp_id = None, pp_fixId = None, pp_stages = Some [stage_at 50, stage_at 10],
      pp_rollbackThresholds = None, pp_monitoring = None\<rparr>"

text \<open>
  An environment in which every stage is deployed 40 seconds after the one before and
  gets a single timer tick, 30 seconds after its deployment, with no traffic.
\<close>

definition env_quiet :: "nat \<Rightarrow> stage_env" where
  "env_quiet i =
     \<lparr>deployAt = 2000 + 40000 * int i, ticks = [(2000 + 40000 * int i + 30000, [])]\<rparr>"

text \<open>A plan given by the caller with the percentages of the default plan.\<close>

definition ascending_plan :: partial_plan where
  "ascending_plan =
     \<lparr>pp_id = None, pp_fixId = None, pp_stages = Some [stage_at 10, stage_at 50, stage_at 100],
      pp_rollbackThresholds = None, pp_monitoring = None\<rparr>"

definition canary_desc :: canary_deployer where
  "canary_desc = deployCanary ''dep-1'' 1000 definition0 (Some descending_plan) canary0"

definition canary_asc :: canary_deployer where
  "canary_asc = deployCanary ''dep-1'' 1000 definition0 (Some ascending_plan) canary0"

text \<open>The first deployment in its first stage, and the same deployment rolled back.\<close>

definition canary_live1 :: canary_deployer where
  "canary_live1 =
     deployToPercentage 2000 ''dep-1'' 10 (stage_at 10) (beginDeployment 1500 ''dep-1'' canary_asc)"

definition canary_failed1 :: canary_deployer where
  "canary_failed1 = rollbackDeployment 3000 ''dep-1'' Automatic canary_live1"

text \<open>A second deployment for the same endpoint, brought to its first stage.\<close>

definition second_deploy :: "canary_deployer \<Rightarrow> canary_deployer" where
  "second_deploy c =
     deployToPercentage 5000 ''dep-2'' 10 (stage_at 10)
       (beginDeployment 4500 ''dep-2''
          (deployCanary ''dep-2'' 4000 definition0 (Some ascending_plan) c))"

definition canary_two :: canary_deployer where
  "canary_two = second_deploy canary_failed1"



text \<open>Requests on \<open>/api/signup\<close> with the given status codes, one every 100 ms.\<close>

fun arrivals_from :: "int \<Rightarrow> int list \<Rightarrow> request_metric list" where
  "arrivals_from t [] = []"
| "arrivals_from t (sc # scs) =
     \<lparr>rm_timestamp = t, statusCode = sc, responseTime = 20, rm_path = ''/api/signup''\<rparr> #
     arrivals_from (t + 100) scs"

definition traffic_6_of_10_failing :: "request_metric list" where
  "traffic_6_of_10_failing =
     arrivals_from 5000 [500, 500, 500, 500, 500, 500, 200, 200, 200, 200]"

definition traffic_3_of_10_failing :: "request_metric list" where
  "traffic_3_of_10_failing =
     arrivals_from 5000 [500, 500, 500, 200, 200, 200, 200, 200, 200, 200]"

text \<open>The triggers \<open>RollbackTriggers.aggressive\<close> of the repository.\<close>

definition aggressive :: "rollback_trigger list" where
  "aggressive =
     [\<lparr>metric = ErrorRate, threshold = Fin (25 / 100), rt_duration = 10\<rparr>,
      \<lparr>metric = SuccessRate, threshold = Fin (75 / 100), rt_duration = 10\<rparr>,
      \<lparr>metric = ResponseTime, threshold = Fin 10000, rt_duration = 30\<rparr>]"

definition plan_with :: "rollback_trigger list option \<Rightarrow> rollback_plan" where
  "plan_with ts =
     \<lparr>rp_id = ''rollback_dep-1'', rp_deploymentId = ''dep-1'', rp_trigger = PlanAutomatic,
      strategy = Immediate, preserveData = True, backupLocation = None, triggers = ts\<rparr>"

text \<open>
  A manager that watches the first deployment, in its first stage, with the given
  triggers, after the listed requests have been recorded.
\<close>

definition mgr_watching ::
  "rollback_trigger list option \<Rightarrow> request_metric list \<Rightarrow> rollback_manager" where
  "mgr_watching ts rs =
     startMonitoring ''mon-1'' 6000 ''dep-1'' (plan_with ts)
       \<lparr>mgr_injector = injector1, canaryDeployer = recordArrivals rs canary_live1,
        monitors = [], rollbackHistory = []\<rparr>"

text \<open>An error-rate trigger whose threshold lies above one half.\<close>

definition lenient :: "rollback_trigger list" where
  "lenient = [\<lparr>metric = ErrorRate, threshold = Fin (7 / 10), rt_duration = 10\<rparr>]"

text \<open>The manager after one and after two polls, 5 seconds apart, at 30 percent errors.\<close>

definition mgr_poll1 :: rollback_manager where
  "mgr_poll1 =
     snd (performHealthCheck ''rb-1'' 10000 ''dep-1''
            (mgr_watching (Some aggressive) traffic_3_of_10_failing))"

definition mgr_poll2 :: rollback_manager where
  "mgr_poll2 = snd (performHealthCheck ''rb-2'' 15000 ''dep-1'' mgr_poll1)"

text \<open>The monitor that \<open>mgr_watching\<close> starts, and what a poll at 30 percent errors records.\<close>

definition monitor0 :: "rollback_trigger list option \<Rightarrow> rollback_monitor" where
  "monitor0 ts =
     \<lparr>mon_id = ''mon-1'', mon_deploymentId = ''dep-1'', rollbackPlan = plan_with ts,
      mon_startTime = 6000, mon_active = True, mon_checks = 0, lastCheck = 0,
      violations = []\<rparr>"

definition hits :: "int \<Rightarrow> rollback_violation list" where
  "hits now =
     [\<lparr>rv_timestamp = now,
       rv_trigger = \<lparr>metric = ErrorRate, threshold = Fin (25 / 100), rt_duration = 10\<rparr>,
       currentValue = Fin (3 / 10)\<rparr>,
      \<lparr>rv_timestamp = now,
       rv_trigger = \<lparr>metric = SuccessRate, threshold = Fin (75 / 100), rt_duration = 10\<rparr>,
       currentValue = Fin (7 / 10)\<rparr>]"

section \<open>Metrics collector: properties\<close>

text \<open>
  C8. \<open>getMetrics\<close> over zero recorded samples (the endpoint has no request record inside
  the window, or no record at all) returns the empty snapshot: success rate 0, error rate
  0, latency 0, throughput 0, sample size 0. Every field is a finite number; no division
  is evaluated and nothing is thrown.
\<close>

theorem getMetrics_zero_samples:
  assumes "\<forall>m. endpointMetrics c endpoint = Some m \<longrightarrow>
             (\<forall>req \<in> set (requests m).
                of_int (rm_timestamp req) < of_int now - windowSeconds * 1000)"
  shows "getMetrics now c endpoint windowSeconds =
           \<lparr>successRate = Fin 0, errorRate = Fin 0, latency = Fin 0, throughput = Fin 0,
            dm_timestamp = now, sampleSize = 0\<rparr>"
proof (cases "endpointMetrics c endpoint")
  case None
  then show ?thesis by (simp add: getMetrics_def calculateMetrics_def getEmptyMetrics_def)
next
  case (Some m)
  with assms have
    "filter (\<lambda>req. of_int now - windowSeconds * 1000 \<le> of_int (rm_timestamp req)) (requests m) = []"
    by (auto simp: filter_empty_conv)
  with Some show ?thesis
    by (simp add: getMetrics_def calculateMetrics_def getEmptyMetrics_def)
qed

theorem getMetrics_zero_samples_witness:
  "getMetrics 100000 (startCollection 90000 ''/api/signup'' collector0) ''/api/signup'' 60 =
     \<lparr>successRate = Fin 0, errorRate = Fin 0, latency = Fin 0, throughput = Fin 0,
      dm_timestamp = 100000, sampleSize = 0\<rparr>"
  using getMetrics_zero_samples
          [of "startCollection 90000 ''/api/signup'' collector0" "''/api/signup''" 100000 60]
  by (simp add: startCollection_def collector0_def)

lemma floor_rat_numeral_div [simp]:
  "\<lfloor>(numeral a :: rat) / numeral b\<rfloor> = numeral a div numeral b"
  using floor_divide_of_int_eq [of "numeral a" "numeral b", where ?'a = rat] by simp

lemma floor_rat_one_div [simp]:
  "\<lfloor>(1 :: rat) / numeral b\<rfloor> = 1 div numeral b"
  using floor_divide_of_int_eq [of 1 "numeral b", where ?'a = rat] by simp

lemma collector5_metrics:
  "getMetrics 100000 collector5 ''/api/signup'' 60 =
     \<lparr>successRate = Fin 1, errorRate = Fin 0, latency = Fin 20, throughput = Fin (8 / 100),
      dm_timestamp = 100000, sampleSize = 5\<rparr>"
  by (simp add: collector5_def startCollection_def collector0_def recordRequest_def ok_request_def
        getMetrics_def calculateMetrics_def Let_def)

lemma collector5_baseline: "getBaseline collector5 ''/api/signup'' = None"
  by (simp add: collector5_def startCollection_def collector0_def recordRequest_def ok_request_def
        getBaseline_def Let_def)

text \<open>
  C2, as the specification states it: with fewer than 10 samples in the window, the health check
  does not fail on sample size alone. It fails: five successful requests, no baseline, all
  three rate checks pass, and the check reports unhealthy with the sample size as its only
  issue.
\<close>

theorem checkHealth_sample_size_alone_counterexample:
  "sampleSize (hc_metrics (checkHealthThresholds 100000 collector5 ''/api/signup'' thresholds0)) = 5 \<and>
   successRateOk (checks (checkHealthThresholds 100000 collector5 ''/api/signup'' thresholds0)) \<and>
   errorRateOk (checks (checkHealthThresholds 100000 collector5 ''/api/signup'' thresholds0)) \<and>
   latencyOk (checks (checkHealthThresholds 100000 collector5 ''/api/signup'' thresholds0)) \<and>
   \<not> healthy (checkHealthThresholds 100000 collector5 ''/api/signup'' thresholds0) \<and>
   issues (checkHealthThresholds 100000 collector5 ''/api/signup'' thresholds0) = [InsufficientSampleSize]"
  by (simp add: checkHealthThresholds_def collector5_metrics compareWithBaseline_def
        collector5_baseline thresholds0_def js_ge_def identifyIssues_def Let_def)

text \<open>
  C2, amended. For every endpoint whose current 60 second window holds fewer than 10
  samples, \<open>checkHealthThresholds\<close> reports the endpoint unhealthy and lists
  the insufficient sample size among the issues, whatever the rate thresholds are: the
  minimum-sample-size gate is a fourth check beside the three rate checks, and all four
  must pass.
\<close>

theorem checkHealth_low_sample_unhealthy:
  assumes "sampleSize (getMetrics now c endpoint 60) < 10"
  shows "\<not> sampleSizeOk (checks (checkHealthThresholds now c endpoint th)) \<and>
         \<not> healthy (checkHealthThresholds now c endpoint th) \<and>
         InsufficientSampleSize \<in> set (issues (checkHealthThresholds now c endpoint th))"
  using assms by (simp add: checkHealthThresholds_def Let_def identifyIssues_def)

theorem checkHealth_low_sample_unhealthy_witness:
  "sampleSize (getMetrics 100000 collector5 ''/api/signup'' 60) < 10 \<and>
   \<not> healthy (checkHealthThresholds 100000 collector5 ''/api/signup'' thresholds0) \<and>
   InsufficientSampleSize \<in> set (issues (checkHealthThresholds 100000 collector5 ''/api/signup'' thresholds0))"
proof -
  have h: "sampleSize (getMetrics 100000 collector5 ''/api/signup'' 60) < 10"
    by (simp add: collector5_metrics)
  show ?thesis using h checkHealth_low_sample_unhealthy [OF h, of thresholds0] by simp
qed

section \<open>Injector: properties\<close>

lemma fold_rate_finite:
  "foldl (\<lambda>sum m. js_add sum (js_div (Fin (of_nat (errorCount m)))
                              (Fin (of_nat (max (requestCount m) 1)))))
     (Fin a) xs =
   Fin (a + sum_list (map (\<lambda>m. of_nat (errorCount m) / of_nat (max (requestCount m) 1)) xs))"
  by (induction xs arbitrary: a) (simp_all add: add.assoc)

text \<open>
  C10. \<open>getStatistics\<close> is division-safe. \<open>averageErrorRate\<close> is always a finite
  number: the mean, over the active patches, of \<open>errorCount / max(requestCount, 1)\<close>, so an
  active patch with zero requests contributes \<open>errorCount / 1\<close>; and it is 0 when no patch
  is active.
\<close>

theorem getStatistics_division_safe:
  "averageErrorRate (getStatistics injr) =
     Fin (sum_list (map (\<lambda>m. of_nat (errorCount m) / of_nat (max (requestCount m) 1))
                      (getAllInjections injr))
          / of_nat (length (getAllInjections injr))) \<and>
   (getAllInjections injr = [] \<longrightarrow> averageErrorRate (getStatistics injr) = Fin 0)"
proof -
  define active where "active = filter im_active (map snd (activeMiddleware injr))"
  have avg: "averageErrorRate (getStatistics injr) =
          (if 0 < length active
             then js_div
                    (foldl (\<lambda>sum m.
                              js_add sum
                                (js_div (Fin (of_nat (errorCount m)))
                                   (Fin (of_nat (max (requestCount m) 1)))))
                       (Fin 0) active)
                    (Fin (of_nat (length active)))
             else Fin 0)"
    unfolding getStatistics_def active_def Let_def by simp
  have act: "getAllInjections injr = active"
    by (simp add: getAllInjections_def active_def)
  show ?thesis
  proof (cases "active = []")
    case True
    then show ?thesis unfolding avg act by simp
  next
    case False
    then show ?thesis unfolding avg act fold_rate_finite by simp
  qed
qed

lemma validate_fn_ok: "validateMiddleware fn_ok = None"
  by code_simp

lemma validate_fn_arity4: "validateMiddleware fn_arity4 = Some (WrongArity 4)"
  by code_simp

lemma injector1_eval:
  "injector1 =
     \<lparr>activeMiddleware =
        [(''inj-1'',
          \<lparr>im_id = ''inj-1'', im_definition = definition0, im_function = fn_ok,
           wrappedFunction = createWrapperMiddleware ''inj-1'' definition0 fn_ok,
           deployedAt = 1000, backupPath = Some ''backups/middleware/middleware_1.json'',
           im_active = True, requestCount = 0, errorCount = 0\<rparr>)],
      middlewareStack = [definition0],
      app = injectIntoExpress definition0 (createWrapperMiddleware ''inj-1'' definition0 fn_ok) [],
      config = \<lparr>safeMode = True, validateBeforeDeploy = True, backupPrevious = True,
                maxConcurrentDeploys = 1\<rparr>\<rparr>"
  by (simp add: injector1_def injectMiddleware_def validate_fn_ok injector0_def Let_def)

text \<open>The witness for C10: no active patch, and one active patch with zero requests.\<close>

theorem getStatistics_division_safe_witness:
  "getAllInjections injector0 = [] \<and> averageErrorRate (getStatistics injector0) = Fin 0 \<and>
   map requestCount (getAllInjections injector1) = [0] \<and>
   averageErrorRate (getStatistics injector1) = Fin 0"
  using getStatistics_division_safe [of injector0] getStatistics_division_safe [of injector1]
  by (simp add: getAllInjections_def injector0_def injector1_def injectMiddleware_def
        validate_fn_ok Let_def)

text \<open>
  What \<open>injectMiddleware\<close> does when the registry holds \<open>maxConcurrentDeploys\<close>
  entries or more: it fails and leaves the injector as it was. \<open>validateMiddleware\<close>
  runs before the capacity check, so a function that fails validation is rejected with its
  validation error (the error of a patch that is never attached); every other call fails
  with the capacity error.
\<close>

lemma injectMiddleware_full_registry:
  assumes "maxConcurrentDeploys (config injr) \<le> int (length (activeMiddleware injr))"
  shows "snd (injectMiddleware iid now backup definition fn injr) = injr \<and>
         (\<exists>e. fst (injectMiddleware iid now backup definition fn injr) = Inl e) \<and>
         (\<not> validateBeforeDeploy (config injr) \<or> validateMiddleware fn = None \<longrightarrow>
            fst (injectMiddleware iid now backup definition fn injr) =
              Inl (CapacityReached (maxConcurrentDeploys (config injr)))) \<and>
         (\<forall>e. validateBeforeDeploy (config injr) \<and> validateMiddleware fn = Some e \<longrightarrow>
            fst (injectMiddleware iid now backup definition fn injr) = Inl e)"
  using assms by (auto simp: injectMiddleware_def split: option.splits)

lemma invalid_function_at_full_registry:
  "fst (injectMiddleware ''inj-2'' 2000 (Inr ''backups/middleware/middleware_1b.json'')
          definition0 fn_arity4 injector1) = Inl (WrongArity 4)"
  by (simp add: injector1_eval injectMiddleware_def validate_fn_arity4)

lemma active_le_registry: "length (getAllInjections injr) \<le> length (activeMiddleware injr)"
  unfolding getAllInjections_def
  by (rule order_trans [OF length_filter_le]) simp

text \<open>
  C6. For every injector state in which the number of active patches has reached
  \<open>maxConcurrentDeploys\<close>, a further \<open>injectMiddleware\<close> of a patch that passes
  validation (or with \<open>validateBeforeDeploy\<close> off) fails with the capacity error: no
  injection id is returned, nothing is queued, and the injector, with its registry of
  active middleware, its middleware stack and the handlers registered on the app, is
  unchanged by the failed call.
\<close>

theorem injectMiddleware_fails_at_capacity:
  assumes "maxConcurrentDeploys (config injr) \<le> int (length (getAllInjections injr))"
    and "validateBeforeDeploy (config injr) \<longrightarrow> validateMiddleware fn = None"
  shows "injectMiddleware iid now backup definition fn injr =
           (Inl (CapacityReached (maxConcurrentDeploys (config injr))), injr)"
proof -
  have "maxConcurrentDeploys (config injr) \<le> int (length (activeMiddleware injr))"
    using assms(1) active_le_registry [of injr] by linarith
  then show ?thesis
    using assms(2) by (auto simp: injectMiddleware_def split: option.splits)
qed

theorem injectMiddleware_fails_at_capacity_witness:
  "map im_id (getAllInjections injector1) = [''inj-1''] \<and>
   maxConcurrentDeploys (config injector1) = 1 \<and>
   validateMiddleware fn_ok = None \<and>
   injectMiddleware ''inj-2'' 2000 (Inr ''backups/middleware/middleware_1b.json'')
       definition0 fn_ok injector1 = (Inl (CapacityReached 1), injector1)"
proof -
  have a: "map im_id (getAllInjections injector1) = [''inj-1'']"
    by (simp add: getAllInjections_def injector1_eval)
  have c: "maxConcurrentDeploys (config injector1) = 1" by (simp add: injector1_eval)
  have h: "maxConcurrentDeploys (config injector1) \<le> int (length (getAllInjections injector1))"
    by (simp add: getAllInjections_def injector1_eval)
  have v: "validateBeforeDeploy (config injector1) \<longrightarrow> validateMiddleware fn_ok = None"
    by (simp add: validate_fn_ok)
  show ?thesis
    using a c validate_fn_ok
      injectMiddleware_fails_at_capacity [OF h v, of "''inj-2''" 2000
        "Inr ''backups/middleware/middleware_1b.json''" definition0]
    by simp
qed

lemma map_of_delete_same: "map_of (AList.delete k al) k = None"
  by (simp add: delete_conv)

text \<open>
  C7. After \<open>removeMiddleware\<close> on an injection id, a call of a wrapper created for that
  id finds no registry entry: it calls \<open>next()\<close> once, with no error, does not invoke the
  patch, returns the request as it came and leaves the injector (all request and error
  counts) as it was. The injector being unchanged, the same holds for every later call.
\<close>

theorem wrapper_passes_through_after_remove:
  assumes "w_injectionId w = iid"
  shows "callWrapper w (snd (removeMiddleware iid injr)) req =
           \<lparr>wr_injector = snd (removeMiddleware iid injr), wr_request = req,
            wr_next = [None], wr_invoked = False\<rparr>"
  using assms
  by (cases "map_of (activeMiddleware injr) iid")
     (simp_all add: callWrapper_def removeMiddleware_def map_of_delete_same)

theorem wrapper_passes_through_after_remove_witness:
  "wr_invoked (callWrapper (createWrapperMiddleware ''inj-1'' definition0 fn_ok) injector1 request0) \<and>
   fst (removeMiddleware ''inj-1'' injector1) = Inr () \<and>
   callWrapper (createWrapperMiddleware ''inj-1'' definition0 fn_ok)
       (snd (removeMiddleware ''inj-1'' injector1)) request0 =
     \<lparr>wr_injector = snd (removeMiddleware ''inj-1'' injector1), wr_request = request0,
      wr_next = [None], wr_invoked = False\<rparr>"
proof -
  have h: "w_injectionId (createWrapperMiddleware ''inj-1'' definition0 fn_ok) = ''inj-1''"
    by (simp add: createWrapperMiddleware_def)
  have a: "wr_invoked (callWrapper (createWrapperMiddleware ''inj-1'' definition0 fn_ok) injector1 request0)"
    by (simp add: callWrapper_def injector1_eval createWrapperMiddleware_def matchesConditions_def
          definition0_def request0_def starts_with_def Let_def)
  have b: "fst (removeMiddleware ''inj-1'' injector1) = Inr ()"
    by (simp add: removeMiddleware_def injector1_eval)
  show ?thesis
    using a b wrapper_passes_through_after_remove [OF h, of injector1 request0] by simp
qed

text \<open>
  The same pass-through holds for an entry that is still registered but inactive, as after
  \<open>emergencyStop\<close>.
\<close>

lemma wrapper_passes_through_when_inactive:
  assumes "map_of (activeMiddleware injr) (w_injectionId w) = Some m" and "\<not> im_active m"
  shows "callWrapper w injr req =
           \<lparr>wr_injector = injr, wr_request = req, wr_next = [None], wr_invoked = False\<rparr>"
  using assms by (simp add: callWrapper_def)

lemma map_of_emergencyStop:
  "map_of (activeMiddleware (emergencyStop injr)) k =
     map_option (\<lambda>m. m\<lparr>im_active := False\<rparr>) (map_of (activeMiddleware injr) k)"
  unfolding emergencyStop_def by (induction "activeMiddleware injr" arbitrary: injr) (auto simp: map_of_map)

section \<open>Canary deployer: what each operation changes\<close>

lemma lookup_modify:
  "map_of (deployments (modify k f c)) k' =
     (if k' = k then map_option f (map_of (deployments c) k) else map_of (deployments c) k')"
  by (simp add: modify_def map_of_map_entry split: option.splits)

lemma lookup_updateDeployment:
  "map_of (deployments (updateDeployment now k c)) k' =
     (if k' = k then map_option (set_status (\<lambda>s. s\<lparr>lastUpdate := now\<rparr>)) (map_of (deployments c) k)
      else map_of (deployments c) k')"
  by (simp add: updateDeployment_def lookup_modify)

lemma lookup_addEvent:
  "map_of (deployments (addEvent now k ty msg c)) k' =
     (if k' = k then map_option (logged now ty msg) (map_of (deployments c) k)
      else map_of (deployments c) k')"
  by (cases "map_of (deployments c) k")
     (simp_all add: addEvent_def lookup_updateDeployment lookup_modify set_status_def keepLast_def
        logged_def Let_def)

lemma collector_modify [simp]: "metricsCollector (modify k f c) = metricsCollector c"
  by (simp add: modify_def)

lemma flags_modify [simp]: "featureFlags (modify k f c) = featureFlags c"
  by (simp add: modify_def)

lemma collector_updateDeployment [simp]: "metricsCollector (updateDeployment now k c) = metricsCollector c"
  by (simp add: updateDeployment_def)

lemma flags_updateDeployment [simp]: "featureFlags (updateDeployment now k c) = featureFlags c"
  by (simp add: updateDeployment_def)

lemma collector_addEvent [simp]: "metricsCollector (addEvent now k ty msg c) = metricsCollector c"
  by (simp add: addEvent_def Let_def split: option.splits)

lemma flags_addEvent [simp]: "featureFlags (addEvent now k ty msg c) = featureFlags c"
  by (simp add: addEvent_def Let_def split: option.splits)

lemma lookup_deployToPercentage:
  "map_of (deployments (deployToPercentage now k pct stg c)) k' =
     (if k' = k then map_option (deployed now pct) (map_of (deployments c) k)
      else map_of (deployments c) k')"
proof (cases "map_of (deployments c) k")
  case None
  then show ?thesis by (simp add: deployToPercentage_def)
next
  case (Some d)
  then show ?thesis
    by (simp add: deployToPercentage_def Let_def lookup_addEvent lookup_updateDeployment
          lookup_modify deployed_def set_status_def logged_def)
qed

lemma lookup_completeDeployment:
  "map_of (deployments (completeDeployment now k c)) k' =
     (if k' = k then map_option (completed now) (map_of (deployments c) k)
      else map_of (deployments c) k')"
proof (cases "map_of (deployments c) k")
  case None
  then show ?thesis by (simp add: completeDeployment_def)
next
  case (Some d)
  then show ?thesis
    by (simp add: completeDeployment_def Let_def lookup_addEvent lookup_updateDeployment
          lookup_modify completed_def set_status_def)
qed

lemma lookup_rollbackBegin:
  "map_of (deployments (rollbackBegin now k c)) k' =
     (if k' = k then map_option (set_status (\<lambda>s. s\<lparr>stage := RollingBack, lastUpdate := now\<rparr>)) (map_of (deployments c) k)
      else map_of (deployments c) k')"
  by (cases "map_of (deployments c) k")
     (simp_all add: rollbackBegin_def Let_def lookup_updateDeployment lookup_modify set_status_def)

lemma lookup_rollbackDeployment:
  "map_of (deployments (rollbackDeployment now k trigger c)) k' =
     (if k' = k then map_option (rolledBack now trigger) (map_of (deployments c) k)
      else map_of (deployments c) k')"
proof (cases "map_of (deployments c) k")
  case None
  then show ?thesis by (simp add: rollbackDeployment_def)
next
  case (Some d)
  then show ?thesis
    by (simp add: rollbackDeployment_def rollbackFinish_def Let_def lookup_addEvent
          lookup_updateDeployment lookup_modify lookup_rollbackBegin rolledBack_def set_status_def)
qed


lemma core_logged [simp]: "core (logged now ty msg d) = core d"
  by (simp add: core_def logged_def set_status_def)

lemma cores_addEvent:
  "map_option core (map_of (deployments (addEvent now k ty msg c)) k') =
   map_option core (map_of (deployments c) k')"
  by (simp add: lookup_addEvent option.map_comp comp_def)

lemma cores_monitorTick:
  "map_option core (map_of (deployments (snd (snd (monitorTick now k stg i ms c)))) k') =
   map_option core (map_of (deployments c) k')"
proof (cases "map_of (deployments c) k")
  case None
  then show ?thesis by (simp add: monitorTick_def)
next
  case (Some d)
  then show ?thesis
    by (simp add: monitorTick_def Let_def cores_addEvent lookup_updateDeployment lookup_modify
          option.map_comp comp_def core_def set_status_def)
qed

lemma deployments_recordArrivals [simp]: "deployments (recordArrivals rs c) = deployments c"
  by (simp add: recordArrivals_def)

lemma cores_monitorLoop:
  "map_option core (map_of (deployments (snd (monitorLoop k stg i ts ms c))) k') =
   map_option core (map_of (deployments c) k')"
proof (induction ts arbitrary: ms c)
  case Nil
  then show ?case by simp
next
  case (Cons t ts)
  obtain now arrivals where t: "t = (now, arrivals)" by (cases t)
  obtain r ms' c' where tick: "monitorTick now k stg i ms (recordArrivals arrivals c) = (r, ms', c')"
    by (cases "monitorTick now k stg i ms (recordArrivals arrivals c)")
  have c': "map_option core (map_of (deployments c') k') = map_option core (map_of (deployments c) k')"
    using cores_monitorTick [of now k stg i ms "recordArrivals arrivals c" k'] tick by simp
  show ?case
  proof (cases r)
    case None
    then show ?thesis using t tick c' Cons.IH [of ms' c'] by simp
  next
    case (Some res)
    then show ?thesis using t tick c' by simp
  qed
qed

lemma cores_monitorStage:
  "map_option core (map_of (deployments (snd (monitorStage k stg i ts c))) k') =
   map_option core (map_of (deployments c) k')"
  by (cases "map_of (deployments c) k") (simp_all add: monitorStage_def cores_monitorLoop)

text \<open>The operations keep every deployment under its own id.\<close>

lemma list_all_map_entry:
  "list_all (\<lambda>(k, d). P k d) al \<Longrightarrow> (\<And>d. P k d \<Longrightarrow> P k (f d)) \<Longrightarrow>
   list_all (\<lambda>(k, d). P k d) (AList.map_entry k f al)"
  by (induction al) auto


lemma ids_modify:
  "ids_consistent c \<Longrightarrow> (\<And>d. st_id (status (f d)) = st_id (status d)) \<Longrightarrow>
   ids_consistent (modify k f c)"
  unfolding ids_consistent_def modify_def
  by (simp add: list_all_map_entry)

lemma ids_updateDeployment: "ids_consistent c \<Longrightarrow> ids_consistent (updateDeployment now k c)"
  unfolding updateDeployment_def by (rule ids_modify) (simp_all add: set_status_def)

lemma ids_collector [simp]: "ids_consistent (c\<lparr>metricsCollector := mc\<rparr>) = ids_consistent c"
  by (simp add: ids_consistent_def)

lemma ids_flags [simp]: "ids_consistent (c\<lparr>featureFlags := ff\<rparr>) = ids_consistent c"
  by (simp add: ids_consistent_def)

lemma ids_addEvent: "ids_consistent c \<Longrightarrow> ids_consistent (addEvent now k ty msg c)"
  by (cases "map_of (deployments c) k")
     (simp_all add: addEvent_def Let_def ids_updateDeployment ids_modify set_status_def)


lemma ids_beginDeployment: "ids_consistent c \<Longrightarrow> ids_consistent (beginDeployment now k c)"
  by (cases "map_of (deployments c) k")
     (simp_all add: beginDeployment_def Let_def ids_updateDeployment ids_modify set_status_def)

lemma ids_deployToPercentage:
  "ids_consistent c \<Longrightarrow> ids_consistent (deployToPercentage now k pct stg c)"
  by (cases "map_of (deployments c) k")
     (simp_all add: deployToPercentage_def Let_def ids_addEvent ids_updateDeployment ids_modify
        set_status_def)

lemma ids_rollbackDeployment:
  "ids_consistent c \<Longrightarrow> ids_consistent (rollbackDeployment now k trigger c)"
  by (cases "map_of (deployments c) k")
     (simp_all add: rollbackDeployment_def rollbackFinish_def rollbackBegin_def Let_def
        ids_addEvent ids_updateDeployment ids_modify set_status_def lookup_updateDeployment
        lookup_modify)



lemma ids_completeDeployment:
  "ids_consistent c \<Longrightarrow> ids_consistent (completeDeployment now k c)"
  by (cases "map_of (deployments c) k")
     (simp_all add: completeDeployment_def Let_def ids_addEvent ids_updateDeployment ids_modify
        set_status_def)

lemma ids_recordArrivals [simp]: "ids_consistent (recordArrivals rs c) = ids_consistent c"
  by (simp add: recordArrivals_def)

lemma ids_monitorTick:
  "ids_consistent c \<Longrightarrow> ids_consistent (snd (snd (monitorTick now k stg i ms c)))"
  by (cases "map_of (deployments c) k")
     (simp_all add: monitorTick_def Let_def ids_addEvent ids_updateDeployment ids_modify
        set_status_def)

lemma ids_monitorLoop:
  "ids_consistent c \<Longrightarrow> ids_consistent (snd (monitorLoop k stg i ts ms c))"
proof (induction ts arbitrary: ms c)
  case Nil
  then show ?case by simp
next
  case (Cons t ts)
  obtain now arrivals where t: "t = (now, arrivals)" by (cases t)
  obtain r ms' c' where tick: "monitorTick now k stg i ms (recordArrivals arrivals c) = (r, ms', c')"
    by (cases "monitorTick now k stg i ms (recordArrivals arrivals c)")
  have c': "ids_consistent c'"
    using ids_monitorTick [of "recordArrivals arrivals c" now k stg i ms] Cons.prems tick by simp
  show ?case
    using t tick c' Cons.IH [OF c', of ms'] by (cases r) simp_all
qed

lemma ids_monitorStage:
  "ids_consistent c \<Longrightarrow> ids_consistent (snd (monitorStage k stg i ts c))"
  by (cases "map_of (deployments c) k") (simp_all add: monitorStage_def ids_monitorLoop)

lemma ids_processStages:
  "ids_consistent c \<Longrightarrow> list_all ids_consistent (processStages k fin ss i env c)"
proof (induction ss arbitrary: c i)
  case Nil
  then show ?case by (simp add: ids_completeDeployment)
next
  case (Cons s rest)
  let ?c1 = "deployToPercentage (deployAt (env i)) k (percentage s) s c"
  obtain r c2 where ms: "monitorStage k s i (ticks (env i)) ?c1 = (r, c2)"
    by (cases "monitorStage k s i (ticks (env i)) ?c1")
  have c1: "ids_consistent ?c1" using Cons.prems by (rule ids_deployToPercentage)
  have c2: "ids_consistent c2" using ids_monitorStage [OF c1, of k s i "ticks (env i)"] ms by simp
  show ?case
    using ms c1 c2 Cons.IH [OF c2, of "i + 1"] by (simp add: ids_rollbackDeployment Let_def)
qed

lemma ids_processDeployment:
  "ids_consistent c \<Longrightarrow> list_all ids_consistent (processDeployment now k env fin c)"
  by (cases "map_of (deployments c) k")
     (simp_all add: processDeployment_def Let_def ids_beginDeployment ids_processStages)

section \<open>Canary deployer: the traffic percentage along a deployment\<close>

lemma view_deployToPercentage:
  "view k' (deployToPercentage now k pct stg c) =
     (if k' = k then map_option (\<lambda>_. (Monitoring, pct)) (view k c) else view k' c)"
  by (simp add: view_def lookup_deployToPercentage option.map_comp comp_def deployed_def
        logged_def set_status_def Let_def)

lemma view_completeDeployment:
  "view k' (completeDeployment now k c) =
     (if k' = k then map_option (\<lambda>_. (Completed, 100)) (view k c) else view k' c)"
  by (simp add: view_def lookup_completeDeployment option.map_comp comp_def completed_def
        logged_def set_status_def)

lemma view_rollbackDeployment:
  "view k' (rollbackDeployment now k trigger c) =
     (if k' = k then map_option (\<lambda>_. (Failed, 0)) (view k c) else view k' c)"
  by (simp add: view_def lookup_rollbackDeployment option.map_comp comp_def rolledBack_def
        logged_def set_status_def)

text \<open>
  Inside \<open>rollbackDeployment\<close> the state is \<open>rolling-back\<close> before the traffic is
  set to 0.
\<close>

lemma view_rollbackBegin:
  "view k' (rollbackBegin now k c) =
     (if k' = k then map_option (\<lambda>v. (RollingBack, snd v)) (view k c) else view k' c)"
  by (simp add: view_def lookup_rollbackBegin option.map_comp comp_def set_status_def)

lemma view_core: "view k c = map_option (\<lambda>x. (fst x, fst (snd x))) (map_option core (map_of (deployments c) k))"
  by (simp add: view_def core_def option.map_comp comp_def)

lemma view_monitorStage: "view k' (snd (monitorStage k stg i ts c)) = view k' c"
  by (simp only: view_core cores_monitorStage)

lemma lookup_beginDeployment:
  "map_of (deployments (beginDeployment now k c)) k' =
     (if k' = k
      then map_option (set_status (\<lambda>s. s\<lparr>stage := Deploying, lastUpdate := now\<rparr>)) (map_of (deployments c) k)
      else map_of (deployments c) k')"
  by (cases "map_of (deployments c) k")
     (simp_all add: beginDeployment_def Let_def lookup_updateDeployment lookup_modify set_status_def)

lemma view_beginDeployment:
  "view k' (beginDeployment now k c) =
     (if k' = k then map_option (\<lambda>v. (Deploying, snd v)) (view k c) else view k' c)"
  by (simp add: view_def lookup_beginDeployment option.map_comp comp_def set_status_def)

lemma views_processStages:
  assumes "view k c = Some v0"
    and "sorted (map percentage ss)"
    and "\<forall>s \<in> set ss. 0 < percentage s \<and> percentage s \<le> 100"
  shows "\<exists>vs. map (view k) (processStages k fin ss i env c) = map Some vs \<and>
           sorted (map snd (filter (\<lambda>v. fst v \<noteq> Failed) vs)) \<and>
           (\<forall>v \<in> set vs. fst v = Failed \<longrightarrow> snd v = 0) \<and>
           (\<forall>v \<in> set vs. snd v = 0 \<longrightarrow> fst v = Failed) \<and>
           (\<forall>v \<in> set vs. fst v \<in> {Monitoring, Completed, Failed}) \<and>
           (\<forall>v \<in> set vs. fst v \<noteq> Failed \<longrightarrow>
              (case ss of [] \<Rightarrow> 100 | s # _ \<Rightarrow> percentage s) \<le> snd v)"
  using assms
proof (induction ss arbitrary: c i v0)
  case Nil
  have "map (view k) (processStages k fin [] i env c) = map Some [(Completed, 100)]"
    using Nil.prems(1) by (simp add: view_completeDeployment)
  then show ?case by (intro exI [of _ "[(Completed, 100)]"]) simp
next
  case (Cons s rest)
  let ?p = "percentage s"
  let ?c1 = "deployToPercentage (deployAt (env i)) k ?p s c"
  obtain r c2 where ms: "monitorStage k s i (ticks (env i)) ?c1 = (r, c2)"
    by (cases "monitorStage k s i (ticks (env i)) ?c1")
  have v1: "view k ?c1 = Some (Monitoring, ?p)"
    using Cons.prems(1) by (simp add: view_deployToPercentage)
  have v2: "view k c2 = Some (Monitoring, ?p)"
    using view_monitorStage [of k k s i "ticks (env i)" ?c1] ms v1 by simp
  have pos: "0 < ?p" "?p \<le> 100" using Cons.prems(3) by auto
  show ?case
  proof (cases "r = StageOk")
    case False
    have "map (view k) (processStages k fin (s # rest) i env c) =
            map Some [(Monitoring, ?p), (Monitoring, ?p), (Failed, 0)]"
      using False ms v1 v2 by (simp add: view_rollbackDeployment)
    then show ?thesis
      using pos by (intro exI [of _ "[(Monitoring, ?p), (Monitoring, ?p), (Failed, 0)]"]) simp
  next
    case True
    have sorted_rest: "sorted (map percentage rest)" using Cons.prems(2) by simp
    have bounds_rest: "\<forall>s \<in> set rest. 0 < percentage s \<and> percentage s \<le> 100"
      using Cons.prems(3) by simp
    from Cons.IH [OF v2 sorted_rest bounds_rest, of "i + 1"] obtain vs where
      vs: "map (view k) (processStages k fin rest (i + 1) env c2) = map Some vs"
        "sorted (map snd (filter (\<lambda>v. fst v \<noteq> Failed) vs))"
        "\<forall>v \<in> set vs. fst v = Failed \<longrightarrow> snd v = 0"
        "\<forall>v \<in> set vs. snd v = 0 \<longrightarrow> fst v = Failed"
        "\<forall>v \<in> set vs. fst v \<in> {Monitoring, Completed, Failed}"
        "\<forall>v \<in> set vs. fst v \<noteq> Failed \<longrightarrow>
              (case rest of [] \<Rightarrow> 100 | s # _ \<Rightarrow> percentage s) \<le> snd v"
      by blast
    have head_le: "?p \<le> (case rest of [] \<Rightarrow> 100 | s' # _ \<Rightarrow> percentage s')"
      using Cons.prems(2) pos by (cases rest) auto
    have lower: "\<forall>v \<in> set vs. fst v \<noteq> Failed \<longrightarrow> ?p \<le> snd v"
      using vs(6) head_le by force
    let ?ws = "(Monitoring, ?p) # (Monitoring, ?p) # vs"
    have eq: "map (view k) (processStages k fin (s # rest) i env c) = map Some ?ws"
      using True ms v1 v2 vs(1) by simp
    have srt: "sorted (map snd (filter (\<lambda>v. fst v \<noteq> Failed) ?ws))"
      using vs(2) lower by auto
    show ?thesis
      using eq srt vs(3,4,5) lower pos by (intro exI [of _ ?ws]) auto
  qed
qed

lemma lookup_deployCanary:
  "map_of (deployments (deployCanary k now mw partial c)) k =
     Some (logged now StageStart (DeploymentInitiated k (createDeploymentPlan k (md_id mw) partial))
       \<lparr>ad_id = k, middleware = mw, plan = createDeploymentPlan k (md_id mw) partial,
        status = \<lparr>st_id = k, stage = Planning, currentStage = - 1,
                trafficPercentage = 0, startTime = now, lastUpdate = now,
                metrics =
                  \<lparr>baseline =
                     (case getBaseline (metricsCollector c) (targetEndpoint mw) of
                        None \<Rightarrow> getEmptyMetrics now
                      | Some b \<Rightarrow> b),
                   current = getEmptyMetrics now, history = []\<rparr>,
                events = []\<rparr>,
        stageStartTime = 0, rollbackFunction = None\<rparr>)"
  by (simp add: deployCanary_def Let_def lookup_addEvent update_conv')

lemma lookup_deployCanary_other:
  "k' \<noteq> k \<Longrightarrow> map_of (deployments (deployCanary k now mw partial c)) k' = map_of (deployments c) k'"
  by (simp add: deployCanary_def Let_def lookup_addEvent update_conv')

lemma monitorStage_elapsed:
  assumes "map_of (deployments c) k = Some d"
    and "ts = (now, arrivals) # rest"
    and "cs_duration stg * 1000 \<le> of_int (now - stageStartTime d)"
  shows "fst (monitorStage k stg i ts c) = StageOk"
  using assms by (simp add: monitorStage_def monitorTick_def Let_def)

lemma views_env_quiet:
  assumes "view k c = Some v0" and "\<forall>s \<in> set ss. cs_duration s \<le> 30"
  shows "map (view k) (processStages k fin ss i env_quiet c) =
           concat (map (\<lambda>s. [Some (Monitoring, percentage s), Some (Monitoring, percentage s)]) ss) @
           [Some (Completed, 100)]"
  using assms
proof (induction ss arbitrary: c i v0)
  case Nil
  then show ?case by (simp add: view_completeDeployment)
next
  case (Cons s rest)
  define t0 where "t0 = 2000 + 40000 * int i"
  have da: "deployAt (env_quiet i) = t0" and tk: "ticks (env_quiet i) = [(t0 + 30000, [])]"
    by (simp_all add: env_quiet_def t0_def)
  let ?c1 = "deployToPercentage t0 k (percentage s) s c"
  obtain r c2 where ms: "monitorStage k s i [(t0 + 30000, [])] ?c1 = (r, c2)"
    by (cases "monitorStage k s i [(t0 + 30000, [])] ?c1")
  obtain d where d: "map_of (deployments c) k = Some d"
    using Cons.prems(1) by (auto simp: view_def)
  have d1: "map_of (deployments ?c1) k = Some (deployed t0 (percentage s) d)"
    using d by (simp add: lookup_deployToPercentage)
  have start: "stageStartTime (deployed t0 (percentage s) d) = t0"
    by (simp add: deployed_def logged_def set_status_def Let_def)
  have dur: "cs_duration s * 1000 \<le> of_int (t0 + 30000 - stageStartTime (deployed t0 (percentage s) d))"
    using Cons.prems(2) by (simp add: start)
  have "fst (monitorStage k s i [(t0 + 30000, [])] ?c1) = StageOk"
    by (rule monitorStage_elapsed [OF d1 refl dur])
  then have r: "r = StageOk" using ms by simp
  have v1: "view k ?c1 = Some (Monitoring, percentage s)"
    using Cons.prems(1) by (simp add: view_deployToPercentage)
  have v2: "view k c2 = Some (Monitoring, percentage s)"
    using view_monitorStage [of k k s i "[(t0 + 30000, [])]" ?c1] ms v1 by simp
  have rest: "\<forall>s \<in> set rest. cs_duration s \<le> 30" using Cons.prems(2) by simp
  show ?case
    using r ms v1 v2 Cons.IH [OF v2 rest, of "i + 1"] by (simp add: da tk)
qed

lemma views_processDeployment_env_quiet:
  assumes "map_of (deployments c) k = Some d" and "\<forall>s \<in> set (stages (plan d)). cs_duration s \<le> 30"
  shows "map (view k) (processDeployment now k env_quiet fin c) =
           Some (Deploying, trafficPercentage (status d)) #
           concat (map (\<lambda>s. [Some (Monitoring, percentage s), Some (Monitoring, percentage s)])
                     (stages (plan d))) @
           [Some (Completed, 100)]"
proof -
  have "view k c = Some (stage (status d), trafficPercentage (status d))"
    using assms(1) by (simp add: view_def)
  then have v0: "view k (beginDeployment now k c) = Some (Deploying, trafficPercentage (status d))"
    by (simp add: view_beginDeployment)
  show ?thesis
    using assms(1) v0 views_env_quiet [OF v0 assms(2), of fin 0]
    by (simp add: processDeployment_def Let_def)
qed

lemma canary_desc_lookup:
  "\<exists>d. map_of (deployments canary_desc) ''dep-1'' = Some d \<and>
       stages (plan d) = [stage_at 50, stage_at 10] \<and> trafficPercentage (status d) = 0"
  by (simp add: canary_desc_def lookup_deployCanary logged_def set_status_def
        createDeploymentPlan_def descending_plan_def Let_def)

text \<open>
  C1, as the specification states it: for every deployment the traffic percentage never decreases
  while the deployment is deploying or monitoring. The plan is the caller's, and
  \<open>deployToPercentage\<close> sets the percentage of each stage as listed: with the stages
  50 and 10 the traffic percentage goes from 50 down to 10 in state \<open>monitoring\<close>.
\<close>

theorem traffic_decreases_counterexample:
  "map (view ''dep-1'') (processDeployment 1500 ''dep-1'' env_quiet 99000 canary_desc) =
     [Some (Deploying, 0), Some (Monitoring, 50), Some (Monitoring, 50),
      Some (Monitoring, 10), Some (Monitoring, 10), Some (Completed, 100)]"
proof -
  from canary_desc_lookup obtain d where
    d: "map_of (deployments canary_desc) ''dep-1'' = Some d"
       "stages (plan d) = [stage_at 50, stage_at 10]" "trafficPercentage (status d) = 0"
    by blast
  have "\<forall>s \<in> set (stages (plan d)). cs_duration s \<le> 30"
    by (simp add: d(2) stage_at_def)
  from views_processDeployment_env_quiet [OF d(1) this, of 1500 99000]
  show ?thesis by (simp add: d(2,3) stage_at_def)
qed

text \<open>
  C1, amended. For every deployment whose plan lists its stage percentages in
  non-decreasing order, each positive and at most 100 (as the default 10/50/100 plan does),
  \<open>trafficPercentage\<close> never decreases over the status updates of \<open>processDeployment\<close>
  (the switch to \<open>deploying\<close>, each \<open>deployToPercentage\<close> and the monitoring after it,
  \<open>completeDeployment\<close>) as long as the deployment has not been rolled back; a rolled
  back deployment is \<open>failed\<close> with \<open>trafficPercentage\<close> 0; and after the first
  update \<open>trafficPercentage\<close> is 0 only in state \<open>failed\<close>. The list \<open>vs\<close> holds
  the state and the traffic percentage after each step of the process.
\<close>

theorem traffic_nondecreasing_until_rollback:
  assumes "map_of (deployments c) k = Some d"
    and "trafficPercentage (status d) = 0"
    and "sorted (map percentage (stages (plan d)))"
    and "\<forall>s \<in> set (stages (plan d)). 0 < percentage s \<and> percentage s \<le> 100"
  shows "\<exists>vs. map (view k) (processDeployment now k env fin c) = map Some vs \<and>
           sorted (map snd (filter (\<lambda>v. fst v \<noteq> Failed) vs)) \<and>
           (\<forall>v \<in> set vs. fst v = Failed \<longrightarrow> snd v = 0) \<and>
           (\<forall>v \<in> set (tl vs). snd v = 0 \<longrightarrow> fst v = Failed) \<and>
           (\<forall>v \<in> set vs. fst v \<in> {Deploying, Monitoring, Completed, Failed})"
proof -
  let ?c2 = "beginDeployment now k c"
  have "view k c = Some (stage (status d), 0)"
    using assms(1,2) by (simp add: view_def)
  then have v0: "view k ?c2 = Some (Deploying, 0)"
    by (simp add: view_beginDeployment)
  from views_processStages [OF v0 assms(3,4), of fin 0 env] obtain vs where
    vs: "map (view k) (processStages k fin (stages (plan d)) 0 env ?c2) = map Some vs"
      "sorted (map snd (filter (\<lambda>v. fst v \<noteq> Failed) vs))"
      "\<forall>v \<in> set vs. fst v = Failed \<longrightarrow> snd v = 0"
      "\<forall>v \<in> set vs. snd v = 0 \<longrightarrow> fst v = Failed"
      "\<forall>v \<in> set vs. fst v \<in> {Monitoring, Completed, Failed}"
      "\<forall>v \<in> set vs. fst v \<noteq> Failed \<longrightarrow>
              (case stages (plan d) of [] \<Rightarrow> 100 | s # _ \<Rightarrow> percentage s) \<le> snd v"
    by blast
  have nonneg: "0 \<le> (case stages (plan d) of [] \<Rightarrow> 100 | s # _ \<Rightarrow> percentage s)"
    using assms(4) by (cases "stages (plan d)") (auto intro: less_imp_le)
  have lower: "\<forall>v \<in> set vs. fst v \<noteq> Failed \<longrightarrow> 0 \<le> snd v"
    using vs(6) nonneg by force
  let ?ws = "(Deploying, 0) # vs"
  have eq: "map (view k) (processDeployment now k env fin c) = map Some ?ws"
    using assms(1) v0 vs(1) by (simp add: processDeployment_def Let_def)
  have srt: "sorted (map snd (filter (\<lambda>v. fst v \<noteq> Failed) ?ws))"
    using vs(2) lower by auto
  show ?thesis
    using eq srt vs(3,4,5) by (intro exI [of _ ?ws]) auto
qed

lemma canary_asc_lookup:
  "\<exists>d. map_of (deployments canary_asc) ''dep-1'' = Some d \<and>
       stages (plan d) = [stage_at 10, stage_at 50, stage_at 100] \<and>
       trafficPercentage (status d) = 0"
  by (simp add: canary_asc_def lookup_deployCanary logged_def set_status_def
        createDeploymentPlan_def ascending_plan_def Let_def)

theorem traffic_nondecreasing_until_rollback_witness:
  "map (view ''dep-1'') (processDeployment 1500 ''dep-1'' env_quiet 99000 canary_asc) =
     [Some (Deploying, 0), Some (Monitoring, 10), Some (Monitoring, 10),
      Some (Monitoring, 50), Some (Monitoring, 50), Some (Monitoring, 100),
      Some (Monitoring, 100), Some (Completed, 100)] \<and>
   (\<exists>vs. map (view ''dep-1'') (processDeployment 1500 ''dep-1'' env_quiet 99000 canary_asc) =
            map Some vs \<and>
          sorted (map snd (filter (\<lambda>v. fst v \<noteq> Failed) vs)) \<and>
          (\<forall>v \<in> set vs. fst v = Failed \<longrightarrow> snd v = 0) \<and>
          (\<forall>v \<in> set (tl vs). snd v = 0 \<longrightarrow> fst v = Failed) \<and>
          (\<forall>v \<in> set vs. fst v \<in> {Deploying, Monitoring, Completed, Failed}))"
proof -
  from canary_asc_lookup obtain d where
    d: "map_of (deployments canary_asc) ''dep-1'' = Some d"
       "stages (plan d) = [stage_at 10, stage_at 50, stage_at 100]"
       "trafficPercentage (status d) = 0"
    by blast
  have srt: "sorted (map percentage (stages (plan d)))"
    by (simp add: d(2) stage_at_def)
  have bnd: "\<forall>s \<in> set (stages (plan d)). 0 < percentage s \<and> percentage s \<le> 100"
    by (simp add: d(2) stage_at_def)
  have dur: "\<forall>s \<in> set (stages (plan d)). cs_duration s \<le> 30"
    by (simp add: d(2) stage_at_def)
  have trace: "map (view ''dep-1'') (processDeployment 1500 ''dep-1'' env_quiet 99000 canary_asc) =
     [Some (Deploying, 0), Some (Monitoring, 10), Some (Monitoring, 10),
      Some (Monitoring, 50), Some (Monitoring, 50), Some (Monitoring, 100),
      Some (Monitoring, 100), Some (Completed, 100)]"
    using views_processDeployment_env_quiet [OF d(1) dur, of 1500 99000]
    by (simp add: d(2,3) stage_at_def)
  show ?thesis
    using trace traffic_nondecreasing_until_rollback [OF d(1) d(3) srt bnd, of 1500 env_quiet 99000]
    by blast
qed

section \<open>Canary deployer: rolling back\<close>

lemma collector_deployToPercentage [simp]:
  "metricsCollector (deployToPercentage now k pct stg c) = metricsCollector c"
  by (simp add: deployToPercentage_def Let_def split: option.splits)

lemma collector_rollbackDeployment:
  "metricsCollector (rollbackDeployment now k trigger c) =
     (case map_of (deployments c) k of
        None \<Rightarrow> metricsCollector c
      | Some d \<Rightarrow> stopCollection (targetEndpoint (middleware d)) (metricsCollector c))"
  by (cases "map_of (deployments c) k")
     (simp_all add: rollbackDeployment_def rollbackFinish_def rollbackBegin_def Let_def
        lookup_updateDeployment lookup_modify set_status_def)

lemma flags_rollbackDeployment:
  "map_of (deployments c) k = Some d \<Longrightarrow>
   featureFlags (rollbackDeployment now k trigger c) = (featureFlags c)(flagKey k := None)"
  by (simp add: rollbackDeployment_def rollbackFinish_def rollbackBegin_def Let_def
        lookup_updateDeployment lookup_modify set_status_def)

lemma collector_deployCanary [simp]:
  "metricsCollector (deployCanary k now mw partial c) = metricsCollector c"
  by (simp add: deployCanary_def Let_def)

lemma collector_beginDeployment:
  "metricsCollector (beginDeployment now k c) =
     (case map_of (deployments c) k of
        None \<Rightarrow> metricsCollector c
      | Some d \<Rightarrow> startCollection now (targetEndpoint (middleware d)) (metricsCollector c))"
  by (cases "map_of (deployments c) k") (simp_all add: beginDeployment_def Let_def)

text \<open>The first deployment of the examples, in its first stage.\<close>

lemma canary_live1_dep1:
  "\<exists>d. map_of (deployments canary_live1) ''dep-1'' = Some d \<and>
       stage (status d) = Monitoring \<and> trafficPercentage (status d) = 10 \<and>
       length (events (status d)) = 2 \<and> middleware d = definition0"
  by (simp add: canary_live1_def canary_asc_def lookup_deployToPercentage lookup_beginDeployment
        lookup_deployCanary deployed_def logged_def set_status_def keepLast_def Let_def)

lemma canary_live1_collector:
  "activeCollectors (metricsCollector canary_live1) = {''/api/signup''}"
  by (simp add: canary_live1_def canary_asc_def collector_beginDeployment lookup_deployCanary
        logged_def set_status_def definition0_def canary0_def collector0_def startCollection_def)

lemma second_deploy_other:
  "map_of (deployments (second_deploy c)) ''dep-1'' = map_of (deployments c) ''dep-1''"
  by (simp add: second_deploy_def lookup_deployToPercentage lookup_beginDeployment
        lookup_deployCanary_other)


lemma second_deploy_collector:
  "activeCollectors (metricsCollector (second_deploy c)) =
     insert ''/api/signup'' (activeCollectors (metricsCollector c))"
  by (auto simp: second_deploy_def collector_beginDeployment lookup_deployCanary
        logged_def set_status_def definition0_def startCollection_def)

lemma canary_two_dep1:
  "\<exists>d. map_of (deployments canary_two) ''dep-1'' = Some d \<and>
       stage (status d) = Failed \<and> trafficPercentage (status d) = 0 \<and>
       length (events (status d)) = 3 \<and> middleware d = definition0"
proof -
  from canary_live1_dep1 obtain d where
    d: "map_of (deployments canary_live1) ''dep-1'' = Some d" "length (events (status d)) = 2"
       "middleware d = definition0"
    by blast
  show ?thesis
    using d by (simp add: canary_two_def second_deploy_other canary_failed1_def
          lookup_rollbackDeployment rolledBack_def logged_def set_status_def keepLast_def)
qed

text \<open>
  C5, as the specification states it: a second \<open>rollbackDeployment\<close> on a failed deployment
  changes nothing. It does: the event log of the failed deployment grows from 3 to 4
  entries, and metrics collection for its endpoint, which a second deployment for the same
  endpoint had started again, is stopped.
\<close>

theorem rollback_again_counterexample:
  "map_option (\<lambda>d. stage (status d)) (map_of (deployments canary_two) ''dep-1'') = Some Failed \<and>
   map_option (\<lambda>d. length (events (status d))) (map_of (deployments canary_two) ''dep-1'') = Some 3 \<and>
   map_option (\<lambda>d. length (events (status d)))
     (map_of (deployments (rollbackDeployment 6000 ''dep-1'' Manual canary_two)) ''dep-1'') = Some 4 \<and>
   ''/api/signup'' \<in> activeCollectors (metricsCollector canary_two) \<and>
   ''/api/signup'' \<notin> activeCollectors (metricsCollector (rollbackDeployment 6000 ''dep-1'' Manual canary_two))"
proof -
  from canary_two_dep1 obtain d where
    d: "map_of (deployments canary_two) ''dep-1'' = Some d" "stage (status d) = Failed"
       "length (events (status d)) = 3" "middleware d = definition0"
    by blast
  have a: "''/api/signup'' \<in> activeCollectors (metricsCollector canary_two)"
    by (simp add: canary_two_def second_deploy_collector)
  have b: "''/api/signup'' \<notin> activeCollectors (metricsCollector (rollbackDeployment 6000 ''dep-1'' Manual canary_two))"
    using d by (simp add: collector_rollbackDeployment stopCollection_def definition0_def)
  have c: "map_option (\<lambda>d. length (events (status d)))
     (map_of (deployments (rollbackDeployment 6000 ''dep-1'' Manual canary_two)) ''dep-1'') = Some 4"
    using d by (simp add: lookup_rollbackDeployment rolledBack_def logged_def set_status_def keepLast_def)
  show ?thesis using a b c d by simp
qed

text \<open>
  C5, amended. Calling \<open>rollbackDeployment\<close> on a deployment that is already
  \<open>rolling-back\<close> or \<open>failed\<close> is not an error and leaves it \<open>failed\<close> with
  \<open>trafficPercentage\<close> 0, but it is not a no-op: it appends one more \<open>rollback\<close> event
  to the event log (which keeps its last 50 entries), sets \<open>lastUpdate\<close>, and stops
  metrics collection for the deployment's endpoint once more. The collector's samples and
  baselines stay as they are.
\<close>

theorem rollback_again_not_noop:
  assumes "map_of (deployments c) k = Some d"
    and "stage (status d) = RollingBack \<or> stage (status d) = Failed"
  shows "\<exists>d'. map_of (deployments (rollbackDeployment now k trigger c)) k = Some d' \<and>
           stage (status d') = Failed \<and> trafficPercentage (status d') = 0 \<and>
           lastUpdate (status d') = now \<and>
           events (status d') =
             keepLast 50 (events (status d) @
               [\<lparr>ev_timestamp = now, ev_type = Rollback,
                 ev_message = DeploymentRolledBack trigger (current (metrics (status d)))\<rparr>]) \<and>
           activeCollectors (metricsCollector (rollbackDeployment now k trigger c)) =
             activeCollectors (metricsCollector c) - {targetEndpoint (middleware d)} \<and>
           endpointMetrics (metricsCollector (rollbackDeployment now k trigger c)) =
             endpointMetrics (metricsCollector c) \<and>
           baselines (metricsCollector (rollbackDeployment now k trigger c)) =
             baselines (metricsCollector c)"
  using assms(1)
  by (simp add: lookup_rollbackDeployment collector_rollbackDeployment rolledBack_def logged_def
        set_status_def stopCollection_def)

theorem rollback_again_not_noop_witness:
  "\<exists>d'. map_of (deployments (rollbackDeployment 6000 ''dep-1'' Manual canary_two)) ''dep-1'' = Some d' \<and>
           stage (status d') = Failed \<and> trafficPercentage (status d') = 0 \<and>
           lastUpdate (status d') = 6000 \<and> length (events (status d')) = 4"
proof -
  from canary_two_dep1 obtain d where
    d: "map_of (deployments canary_two) ''dep-1'' = Some d" "stage (status d) = Failed"
       "length (events (status d)) = 3"
    by blast
  have st: "stage (status d) = RollingBack \<or> stage (status d) = Failed" using d(2) by simp
  from rollback_again_not_noop [OF d(1) st, of 6000 Manual] obtain d' where
    d': "map_of (deployments (rollbackDeployment 6000 ''dep-1'' Manual canary_two)) ''dep-1'' = Some d'"
      "stage (status d') = Failed" "trafficPercentage (status d') = 0" "lastUpdate (status d') = 6000"
      "events (status d') =
             keepLast 50 (events (status d) @
               [\<lparr>ev_timestamp = 6000, ev_type = Rollback,
                 ev_message = DeploymentRolledBack Manual (current (metrics (status d)))\<rparr>])"
    by blast
  have "length (events (status d')) = 4" using d'(5) d(3) by (simp add: keepLast_def)
  then show ?thesis using d' by blast
qed

section \<open>Rollback manager: emergency rollback\<close>


lemma stage_rolledBack [simp]:
  "stage (status (rolledBack now tr d)) = Failed"
  "trafficPercentage (status (rolledBack now tr d)) = 0"
  by (simp_all add: rolledBack_def logged_def set_status_def)






text \<open>The stage loop of a deployment, the feature flags, and what a rollback of all leaves.\<close>

lemma processStages_continue:
  "processStages k fin (stg # rest) i env c =
     deployToPercentage (deployAt (env i)) k (percentage stg) stg c #
     continueDeployment k fin stg rest i env
       (deployToPercentage (deployAt (env i)) k (percentage stg) stg c)"
  by (simp add: continueDeployment_def Let_def split: prod.splits)


lemma flags_completeDeployment [simp]:
  "featureFlags (completeDeployment now k c) = featureFlags c"
  by (cases "map_of (deployments c) k") (simp_all add: completeDeployment_def Let_def)

lemma flags_recordArrivals [simp]: "featureFlags (recordArrivals rs c) = featureFlags c"
  by (simp add: recordArrivals_def)












text \<open>The stage loop of the first example deployment, as \<open>processDeployment\<close> runs it.\<close>

lemma dep1_in_flight:
  "processDeployment 1500 ''dep-1'' env_quiet fin canary_asc =
     beginDeployment 1500 ''dep-1'' canary_asc # canary_live1 #
     continueDeployment ''dep-1'' fin (stage_at 10) [stage_at 50, stage_at 100] 0 env_quiet
       canary_live1"
proof -
  from canary_asc_lookup obtain d where
    d: "map_of (deployments canary_asc) ''dep-1'' = Some d"
       "stages (plan d) = [stage_at 10, stage_at 50, stage_at 100]"
    by blast
  have p: "percentage (stage_at 10) = 10" by (simp add: stage_at_def)
  have e: "deployAt (env_quiet 0) = 2000" by (simp add: env_quiet_def)
  show ?thesis
    using d by (simp add: processDeployment_def Let_def processStages_continue p e
          canary_live1_def del: processStages.simps)
qed


section \<open>Rollback manager: one poll\<close>

text \<open>Recording requests, and the metrics of the example traffic.\<close>

lemma recordRequest_append:
  assumes "e \<in> activeCollectors mc" and "endpointMetrics mc e = Some m"
    and "now - lastCleanup m \<le> 30000"
  shows "recordRequest now e r mc =
           mc\<lparr>endpointMetrics := (endpointMetrics mc)(e \<mapsto> m\<lparr>requests := requests m @ [r]\<rparr>)\<rparr>"
  using assms by (simp add: recordRequest_def Let_def)

lemma fold_recordRequest:
  assumes "e \<in> activeCollectors mc" and "endpointMetrics mc e = Some m"
    and "\<forall>r \<in> set rs. rm_path r = e \<and> rm_timestamp r - lastCleanup m \<le> 30000"
  shows "foldl (\<lambda>mc r. recordRequest (rm_timestamp r) (rm_path r) r mc) mc rs =
           mc\<lparr>endpointMetrics := (endpointMetrics mc)(e \<mapsto> m\<lparr>requests := requests m @ rs\<rparr>)\<rparr>"
  using assms
proof (induction rs arbitrary: mc m)
  case Nil
  then show ?case by (simp add: map_upd_triv)
next
  case (Cons r rs)
  let ?m1 = "m\<lparr>requests := requests m @ [r]\<rparr>"
  let ?mc1 = "mc\<lparr>endpointMetrics := (endpointMetrics mc)(e \<mapsto> ?m1)\<rparr>"
  have step: "recordRequest (rm_timestamp r) (rm_path r) r mc = ?mc1"
    using Cons.prems by (simp add: recordRequest_append)
  have "foldl (\<lambda>mc r. recordRequest (rm_timestamp r) (rm_path r) r mc) mc (r # rs) =
          foldl (\<lambda>mc r. recordRequest (rm_timestamp r) (rm_path r) r mc) ?mc1 rs"
    by (simp add: step)
  also have "\<dots> =
          ?mc1\<lparr>endpointMetrics := (endpointMetrics ?mc1)(e \<mapsto> ?m1\<lparr>requests := requests ?m1 @ rs\<rparr>)\<rparr>"
    using Cons.prems by (intro Cons.IH) simp_all
  also have "\<dots> =
          mc\<lparr>endpointMetrics := (endpointMetrics mc)(e \<mapsto> m\<lparr>requests := requests m @ r # rs\<rparr>)\<rparr>"
    by simp
  finally show ?case .
qed

lemma canary_live1_collector_eval:
  "metricsCollector canary_live1 =
     \<lparr>endpointMetrics = [''/api/signup'' \<mapsto> \<lparr>requests = [], em_startTime = 1500, lastCleanup = 1500\<rparr>],
      baselines = Map.empty, activeCollectors = {''/api/signup''}\<rparr>"
  by (simp add: canary_live1_def canary_asc_def collector_beginDeployment lookup_deployCanary
        logged_def set_status_def definition0_def canary0_def collector0_def startCollection_def)

lemma live1_recorded:
  assumes "\<forall>r \<in> set rs. rm_path r = ''/api/signup'' \<and> rm_timestamp r \<le> 31500"
  shows "metricsCollector (recordArrivals rs canary_live1) =
     \<lparr>endpointMetrics = [''/api/signup'' \<mapsto> \<lparr>requests = rs, em_startTime = 1500, lastCleanup = 1500\<rparr>],
      baselines = Map.empty, activeCollectors = {''/api/signup''}\<rparr>"
proof -
  let ?m = "\<lparr>requests = [], em_startTime = 1500, lastCleanup = 1500\<rparr>"
  have a: "''/api/signup'' \<in> activeCollectors (metricsCollector canary_live1)"
    and b: "endpointMetrics (metricsCollector canary_live1) ''/api/signup'' = Some ?m"
    by (simp_all add: canary_live1_collector_eval)
  have c: "\<forall>r \<in> set rs. rm_path r = ''/api/signup'' \<and> rm_timestamp r - lastCleanup ?m \<le> 30000"
    using assms by auto
  show ?thesis
    unfolding recordArrivals_def
    by (simp add: fold_recordRequest [OF a b c]) (simp add: canary_live1_collector_eval)
qed

lemma window_30: "(of_int now - 30000 \<le> (of_int t :: rat)) = (now - t \<le> 30000)"
proof -
  have "(of_int now - 30000 :: rat) = of_int (now - 30000)" by simp
  then have "(of_int now - 30000 \<le> (of_int t :: rat)) = (now - 30000 \<le> t)"
    by (simp only: of_int_le_iff)
  then show ?thesis by auto
qed

lemma getMetrics_all_recent:
  assumes "endpointMetrics mc e = Some m" and "requests m \<noteq> []"
    and "\<forall>r \<in> set (requests m). now - rm_timestamp r \<le> 30000"
  shows "getMetrics now mc e 30 =
     \<lparr>successRate =
        js_round_to 1000
          (js_div (Fin (of_nat (length (filter (\<lambda>req. 200 \<le> statusCode req \<and> statusCode req < 400) (requests m)))))
             (Fin (of_nat (length (requests m))))),
      errorRate =
        js_round_to 1000
          (js_div (Fin (of_nat (length (filter (\<lambda>req. 400 \<le> statusCode req) (requests m)))))
             (Fin (of_nat (length (requests m))))),
      latency =
        js_round_to 100
          (js_div (Fin (of_int (sum_list (map responseTime (requests m)))))
             (Fin (of_nat (length (requests m))))),
      throughput = js_round_to 100 (js_div (Fin (of_nat (length (requests m)))) (Fin 30)),
      dm_timestamp = now, sampleSize = length (requests m)\<rparr>"
proof -
  have "filter (\<lambda>req. of_int now - 30 * 1000 \<le> (of_int (rm_timestamp req) :: rat)) (requests m) = requests m"
    using assms(3) by (simp add: window_30 filter_id_conv)
  then show ?thesis
    using assms(1,2) by (simp add: getMetrics_def calculateMetrics_def Let_def)
qed

lemma metrics_6_failing:
  assumes "now \<le> 35000"
  shows "getMetrics now (metricsCollector (recordArrivals traffic_6_of_10_failing canary_live1)) ''/api/signup'' 30 =
     \<lparr>successRate = Fin (4 / 10), errorRate = Fin (6 / 10), latency = Fin 20, throughput = Fin (33 / 100),
      dm_timestamp = now, sampleSize = 10\<rparr>"
proof -
  have "\<forall>r \<in> set traffic_6_of_10_failing. rm_path r = ''/api/signup'' \<and> rm_timestamp r \<le> 31500"
    by (simp add: traffic_6_of_10_failing_def)
  note mc = live1_recorded [OF this]
  have recent: "\<forall>r \<in> set traffic_6_of_10_failing. now - rm_timestamp r \<le> 30000"
    using assms by (simp add: traffic_6_of_10_failing_def)
  show ?thesis
    by (subst getMetrics_all_recent [where m = "\<lparr>requests = traffic_6_of_10_failing, em_startTime = 1500, lastCleanup = 1500\<rparr>"])
       (simp_all add: mc recent, simp_all add: traffic_6_of_10_failing_def)
qed

lemma metrics_3_failing:
  assumes "now \<le> 35000"
  shows "getMetrics now (metricsCollector (recordArrivals traffic_3_of_10_failing canary_live1)) ''/api/signup'' 30 =
     \<lparr>successRate = Fin (7 / 10), errorRate = Fin (3 / 10), latency = Fin 20, throughput = Fin (33 / 100),
      dm_timestamp = now, sampleSize = 10\<rparr>"
proof -
  have "\<forall>r \<in> set traffic_3_of_10_failing. rm_path r = ''/api/signup'' \<and> rm_timestamp r \<le> 31500"
    by (simp add: traffic_3_of_10_failing_def)
  note mc = live1_recorded [OF this]
  have recent: "\<forall>r \<in> set traffic_3_of_10_failing. now - rm_timestamp r \<le> 30000"
    using assms by (simp add: traffic_3_of_10_failing_def)
  show ?thesis
    by (subst getMetrics_all_recent [where m = "\<lparr>requests = traffic_3_of_10_failing, em_startTime = 1500, lastCleanup = 1500\<rparr>"])
       (simp_all add: mc recent, simp_all add: traffic_3_of_10_failing_def)
qed

lemma checkTrigger_violated:
  "violated m t \<Longrightarrow>
   checkTrigger now m t = [\<lparr>rv_timestamp = now, rv_trigger = t, currentValue = observed m t\<rparr>]"
  by (simp add: checkTrigger_def)

lemma evaluate_update:
  "evaluateRollbackTriggers now (mgr\<lparr>monitors := AList.update k mon' al\<rparr>) k m =
     (case triggers (rollbackPlan mon') of
        None \<Rightarrow> []
      | Some ts \<Rightarrow> concat (map (checkTrigger now m) ts))"
  by (simp add: evaluateRollbackTriggers_def update_conv')

lemma evaluate_found:
  "map_of (monitors mgr) k = Some monitor \<Longrightarrow>
   evaluateRollbackTriggers now mgr k m =
     (case triggers (rollbackPlan monitor) of
        None \<Rightarrow> []
      | Some ts \<Rightarrow> concat (map (checkTrigger now m) ts))"
  by (simp add: evaluateRollbackTriggers_def)

lemma evaluate_member:
  assumes "map_of (monitors mgr) k = Some monitor"
    and "triggers (rollbackPlan monitor) = Some ts" and "t \<in> set ts" and "violated m t"
  shows "\<lparr>rv_timestamp = now, rv_trigger = t, currentValue = observed m t\<rparr>
           \<in> set (evaluateRollbackTriggers now mgr k m)"
  using assms by (auto simp: evaluate_found checkTrigger_violated intro!: bexI [of _ t])

lemma shouldTrigger_critical:
  "v \<in> set vs \<Longrightarrow> isCritical v \<Longrightarrow> shouldTriggerRollback now monitor vs"
  by (auto simp: shouldTriggerRollback_def filter_empty_conv)

lemma shouldTrigger_sustained:
  assumes "v \<in> set vs"
    and "3 \<le> length (filter (\<lambda>rv. metric (rv_trigger rv) = metric (rv_trigger v))
                       (filter (\<lambda>v. now - rv_timestamp v < 60000) (violations monitor)))"
  shows "shouldTriggerRollback now monitor vs"
  using assms by (auto simp: shouldTriggerRollback_def filter_empty_conv Let_def)

text \<open>A poll, when the monitor and a deployment that is neither completed nor failed are there.\<close>

lemma performHealthCheck_live:
  assumes mon: "map_of (monitors mgr) k = Some monitor"
    and st: "getDeploymentStatus (canaryDeployer mgr) k = Some st"
    and live: "stage st \<noteq> Completed" "stage st \<noteq> Failed"
    and vs: "vs = evaluateRollbackTriggers now mgr k
                    (getMetrics now (metricsCollector (canaryDeployer mgr)) ''/api/signup'' 30)"
  shows "fst (performHealthCheck rid now k mgr) =
           Inr (vs \<noteq> [] \<and>
                shouldTriggerRollback now
                  (monitor\<lparr>mon_checks := mon_checks monitor + 1, lastCheck := now,
                           violations := violations monitor @ vs\<rparr>) vs)"
  using mon st live
  unfolding performHealthCheck_def Let_def vs
  by (simp add: evaluate_update evaluate_found [OF mon] extractEndpointFromDeployment_def
        executeRollback_def update_conv' Let_def)

lemma performHealthCheck_live_state:
  assumes mon: "map_of (monitors mgr) k = Some monitor"
    and st: "getDeploymentStatus (canaryDeployer mgr) k = Some st"
    and live: "stage st \<noteq> Completed" "stage st \<noteq> Failed"
    and vs: "vs = evaluateRollbackTriggers now mgr k
                    (getMetrics now (metricsCollector (canaryDeployer mgr)) ''/api/signup'' 30)"
    and ne: "vs \<noteq> []"
  shows "snd (performHealthCheck rid now k mgr) =
           (if shouldTriggerRollback now
                  (monitor\<lparr>mon_checks := mon_checks monitor + 1, lastCheck := now,
                           violations := violations monitor @ vs\<rparr>) vs
            then mgr\<lparr>canaryDeployer := rollbackDeployment now k Automatic (canaryDeployer mgr),
                     rollbackHistory := rollbackHistory mgr @
                       [\<lparr>rr_id = rid, rr_deploymentId = k, rr_trigger = Automatic,
                         rr_reason = TriggeredBy vs, rr_startTime = now, rr_endTime = now,
                         rr_success = True, rr_strategy = strategy (rollbackPlan monitor)\<rparr>],
                     monitors := AList.delete k (monitors mgr)\<rparr>
            else mgr\<lparr>monitors :=
                       AList.update k
                         (monitor\<lparr>mon_checks := mon_checks monitor + 1, lastCheck := now,
                                  violations := violations monitor @ vs\<rparr>)
                         (monitors mgr)\<rparr>)"
  using mon st live ne
  unfolding performHealthCheck_def Let_def vs
  by (simp add: evaluate_update evaluate_found [OF mon] extractEndpointFromDeployment_def
        executeRollback_def update_conv' Let_def delete_update_same)

text \<open>The example managers.\<close>

lemma watching_monitors:
  "monitors (mgr_watching ts rs) = [(''dep-1'', monitor0 ts)]"
  by (simp add: mgr_watching_def startMonitoring_def monitor0_def)

lemma watching_canary:
  "canaryDeployer (mgr_watching ts rs) = recordArrivals rs canary_live1"
  by (simp add: mgr_watching_def startMonitoring_def)

lemma watching_status:
  "\<exists>st. getDeploymentStatus (recordArrivals rs canary_live1) ''dep-1'' = Some st \<and>
        stage st = Monitoring"
  using canary_live1_dep1 by (auto simp: getDeploymentStatus_def)

lemma hits_evaluated:
  assumes "map_of (monitors mgr) ''dep-1'' = Some monitor"
    and "triggers (rollbackPlan monitor) = Some aggressive"
  shows "evaluateRollbackTriggers now mgr ''dep-1''
           \<lparr>successRate = Fin (7 / 10), errorRate = Fin (3 / 10), latency = Fin 20,
            throughput = Fin (33 / 100), dm_timestamp = now, sampleSize = 10\<rparr> = hits now"
  using assms
  by (simp add: evaluate_found aggressive_def checkTrigger_def violated_def observed_def
        js_gt_def hits_def)

text \<open>
  C3, as the specification states it: for every monitor state, a poll that observes an error rate
  above 0.5 rolls back at once. The critical-path rule only looks at the violations of the
  configured triggers: with an error rate of 0.6 and an error-rate trigger whose threshold
  is 0.7, or with no triggers configured, the poll records no violation and does not roll
  back.
\<close>

theorem critical_observation_counterexample:
  "errorRate (getMetrics 10000
      (metricsCollector (canaryDeployer (mgr_watching (Some lenient) traffic_6_of_10_failing)))
      ''/api/signup'' 30) = Fin (6 / 10) \<and>
   js_gt (Fin (6 / 10)) (Fin (1 / 2)) \<and>
   fst (performHealthCheck ''rb-1'' 10000 ''dep-1''
          (mgr_watching (Some lenient) traffic_6_of_10_failing)) = Inr False \<and>
   fst (performHealthCheck ''rb-1'' 10000 ''dep-1''
          (mgr_watching None traffic_6_of_10_failing)) = Inr False"
proof -
  have m: "getMetrics 10000
      (metricsCollector (canaryDeployer (mgr_watching ts traffic_6_of_10_failing)))
      ''/api/signup'' 30 =
      \<lparr>successRate = Fin (4 / 10), errorRate = Fin (6 / 10), latency = Fin 20,
       throughput = Fin (33 / 100), dm_timestamp = 10000, sampleSize = 10\<rparr>" for ts
    by (simp add: watching_canary metrics_6_failing)
  have poll: "fst (performHealthCheck ''rb-1'' 10000 ''dep-1'' (mgr_watching ts traffic_6_of_10_failing)) = Inr False"
    if none: "evaluateRollbackTriggers 10000 (mgr_watching ts traffic_6_of_10_failing) ''dep-1''
            (getMetrics 10000 (metricsCollector (canaryDeployer (mgr_watching ts traffic_6_of_10_failing)))
               ''/api/signup'' 30) = []" for ts
  proof -
    let ?mgr = "mgr_watching ts traffic_6_of_10_failing"
    have mon: "map_of (monitors ?mgr) ''dep-1'' = Some (monitor0 ts)"
      by (simp add: watching_monitors)
    obtain st where st: "getDeploymentStatus (canaryDeployer ?mgr) ''dep-1'' = Some st"
        "stage st = Monitoring"
      using watching_status [of traffic_6_of_10_failing] by (auto simp: watching_canary)
    have live: "stage st \<noteq> Completed" "stage st \<noteq> Failed" using st(2) by simp_all
    from performHealthCheck_live [where now = 10000 and rid = "''rb-1''", OF mon st(1) live refl] none
    show ?thesis by simp
  qed
  have a: "evaluateRollbackTriggers 10000 (mgr_watching (Some lenient) traffic_6_of_10_failing) ''dep-1''
            (getMetrics 10000 (metricsCollector (canaryDeployer (mgr_watching (Some lenient) traffic_6_of_10_failing)))
               ''/api/signup'' 30) = []"
    by (simp add: m evaluate_found watching_monitors monitor0_def plan_with_def lenient_def
          checkTrigger_def violated_def js_gt_def)
  have b: "evaluateRollbackTriggers 10000 (mgr_watching None traffic_6_of_10_failing) ''dep-1''
            (getMetrics 10000 (metricsCollector (canaryDeployer (mgr_watching None traffic_6_of_10_failing)))
               ''/api/signup'' 30) = []"
    by (simp add: evaluate_found watching_monitors monitor0_def plan_with_def)
  show ?thesis using poll [OF a] poll [OF b] by (simp add: m js_gt_def)
qed

text \<open>
  C3, amended. Whatever the violation history of the monitor, if a poll observes metrics
  that violate a configured error-rate trigger with an error rate above 0.5, or a
  configured success-rate trigger with a success rate below 0.5, then
  \<open>shouldTriggerRollback\<close> is true on that poll, the poll rolls the deployment back and
  leaves it \<open>failed\<close>. (The poll is \<open>performHealthCheck\<close> on a monitored deployment
  that is neither completed nor failed. An observation that violates no configured
  trigger produces no violation, and no rollback.)
\<close>

theorem critical_violation_rolls_back:
  assumes "map_of (monitors mgr) k = Some monitor"
    and "triggers (rollbackPlan monitor) = Some ts" and "t \<in> set ts"
    and "getDeploymentStatus (canaryDeployer mgr) k = Some st"
    and "stage st \<noteq> Completed" and "stage st \<noteq> Failed"
    and "m = getMetrics now (metricsCollector (canaryDeployer mgr)) ''/api/signup'' 30"
    and "violated m t"
    and "(metric t = ErrorRate \<and> js_gt (errorRate m) (Fin (1 / 2))) \<or>
         (metric t = SuccessRate \<and> js_lt (successRate m) (Fin (1 / 2)))"
  shows "fst (performHealthCheck rid now k mgr) = Inr True \<and>
         (\<forall>monitor'. shouldTriggerRollback now monitor' (evaluateRollbackTriggers now mgr k m)) \<and>
         view k (canaryDeployer (snd (performHealthCheck rid now k mgr))) = Some (Failed, 0)"
proof -
  let ?v = "\<lparr>rv_timestamp = now, rv_trigger = t, currentValue = observed m t\<rparr>"
  let ?vs = "evaluateRollbackTriggers now mgr k m"
  have mem: "?v \<in> set ?vs" by (rule evaluate_member [OF assms(1,2,3,8)])
  have crit: "isCritical ?v" using assms(9) by (auto simp: isCritical_def observed_def)
  have should: "shouldTriggerRollback now monitor' ?vs" for monitor'
    by (rule shouldTrigger_critical [OF mem crit])
  have ne: "?vs \<noteq> []" using mem by auto
  have a: "fst (performHealthCheck rid now k mgr) = Inr True"
    using performHealthCheck_live [OF assms(1,4,5,6), of ?vs now rid] ne should
    by (simp add: assms(7))
  have b: "canaryDeployer (snd (performHealthCheck rid now k mgr)) =
             rollbackDeployment now k Automatic (canaryDeployer mgr)"
    using performHealthCheck_live_state [OF assms(1,4,5,6), of ?vs now rid] ne should
    by (simp add: assms(7))
  obtain d where d: "map_of (deployments (canaryDeployer mgr)) k = Some d"
    using assms(4) by (auto simp: getDeploymentStatus_def)
  have "view k (canaryDeployer mgr) = Some (stage (status d), trafficPercentage (status d))"
    using d by (simp add: view_def)
  then have c: "view k (rollbackDeployment now k Automatic (canaryDeployer mgr)) = Some (Failed, 0)"
    by (simp add: view_rollbackDeployment)
  show ?thesis using a b c should by simp
qed

theorem critical_violation_rolls_back_witness:
  "fst (performHealthCheck ''rb-1'' 10000 ''dep-1''
          (mgr_watching (Some aggressive) traffic_6_of_10_failing)) = Inr True \<and>
   view ''dep-1''
     (canaryDeployer
        (snd (performHealthCheck ''rb-1'' 10000 ''dep-1''
                (mgr_watching (Some aggressive) traffic_6_of_10_failing)))) = Some (Failed, 0)"
proof -
  let ?mgr = "mgr_watching (Some aggressive) traffic_6_of_10_failing"
  let ?t = "\<lparr>metric = ErrorRate, threshold = Fin (25 / 100), rt_duration = 10\<rparr>"
  let ?m = "\<lparr>successRate = Fin (4 / 10), errorRate = Fin (6 / 10), latency = Fin 20,
             throughput = Fin (33 / 100), dm_timestamp = 10000, sampleSize = 10\<rparr>"
  have mon: "map_of (monitors ?mgr) ''dep-1'' = Some (monitor0 (Some aggressive))"
    by (simp add: watching_monitors)
  have ts: "triggers (rollbackPlan (monitor0 (Some aggressive))) = Some aggressive"
    by (simp add: monitor0_def plan_with_def)
  have t: "?t \<in> set aggressive" by (simp add: aggressive_def)
  obtain st where st: "getDeploymentStatus (canaryDeployer ?mgr) ''dep-1'' = Some st"
      "stage st = Monitoring"
    using watching_status [of traffic_6_of_10_failing] by (auto simp: watching_canary)
  have live: "stage st \<noteq> Completed" "stage st \<noteq> Failed" using st(2) by simp_all
  have m: "?m = getMetrics 10000 (metricsCollector (canaryDeployer ?mgr)) ''/api/signup'' 30"
    by (simp add: watching_canary metrics_6_failing)
  have v: "violated ?m ?t" by (simp add: violated_def js_gt_def)
  have crit: "(metric ?t = ErrorRate \<and> js_gt (errorRate ?m) (Fin (1 / 2))) \<or>
              (metric ?t = SuccessRate \<and> js_lt (successRate ?m) (Fin (1 / 2)))"
    by (simp add: js_gt_def)
  from critical_violation_rolls_back [OF mon ts t st(1) live m v crit, of "''rb-1''"]
  show ?thesis by simp
qed

text \<open>
  C4. If the monitor already holds at least two violations of the metric of a configured
  trigger with timestamps less than 60 seconds before the current poll, and the current
  poll violates that trigger too (the third violating poll in the trailing 60 seconds),
  then the poll decides to roll back and leaves the deployment \<open>failed\<close>, whether or not
  any observation was critical.
\<close>

theorem sustained_violation_rolls_back:
  assumes "map_of (monitors mgr) k = Some monitor"
    and "triggers (rollbackPlan monitor) = Some ts" and "t \<in> set ts"
    and "getDeploymentStatus (canaryDeployer mgr) k = Some st"
    and "stage st \<noteq> Completed" and "stage st \<noteq> Failed"
    and "m = getMetrics now (metricsCollector (canaryDeployer mgr)) ''/api/signup'' 30"
    and "violated m t"
    and "2 \<le> length (filter (\<lambda>rv. metric (rv_trigger rv) = metric t \<and>
                                   now - rv_timestamp rv < 60000) (violations monitor))"
  shows "fst (performHealthCheck rid now k mgr) = Inr True \<and>
         view k (canaryDeployer (snd (performHealthCheck rid now k mgr))) = Some (Failed, 0)"
proof -
  let ?v = "\<lparr>rv_timestamp = now, rv_trigger = t, currentValue = observed m t\<rparr>"
  let ?vs = "evaluateRollbackTriggers now mgr k m"
  let ?mon2 = "monitor\<lparr>mon_checks := mon_checks monitor + 1, lastCheck := now,
                       violations := violations monitor @ ?vs\<rparr>"
  let ?P = "\<lambda>rv. metric (rv_trigger rv) = metric (rv_trigger ?v)"
  let ?Q = "\<lambda>v. now - rv_timestamp v < 60000"
  have mem: "?v \<in> set ?vs" by (rule evaluate_member [OF assms(1,2,3,8)])
  have ne: "?vs \<noteq> []" using mem by auto
  have "?v \<in> set (filter ?P (filter ?Q ?vs))" using mem by simp
  then have "filter ?P (filter ?Q ?vs) \<noteq> []" by (metis empty_iff empty_set)
  then have cur: "1 \<le> length (filter ?P (filter ?Q ?vs))"
    by (simp add: Suc_le_eq)
  have old: "2 \<le> length (filter ?P (filter ?Q (violations monitor)))"
    using assms(9) by (simp add: conj_commute)
  have "3 \<le> length (filter ?P (filter ?Q (violations ?mon2)))"
    using cur old by simp
  then have should: "shouldTriggerRollback now ?mon2 ?vs"
    by (rule shouldTrigger_sustained [OF mem])
  have a: "fst (performHealthCheck rid now k mgr) = Inr True"
    using performHealthCheck_live [OF assms(1,4,5,6), of ?vs now rid] ne should
    by (simp add: assms(7))
  have b: "canaryDeployer (snd (performHealthCheck rid now k mgr)) =
             rollbackDeployment now k Automatic (canaryDeployer mgr)"
    using performHealthCheck_live_state [OF assms(1,4,5,6), of ?vs now rid] ne should
    by (simp add: assms(7))
  obtain d where d: "map_of (deployments (canaryDeployer mgr)) k = Some d"
    using assms(4) by (auto simp: getDeploymentStatus_def)
  have "view k (canaryDeployer mgr) = Some (stage (status d), trafficPercentage (status d))"
    using d by (simp add: view_def)
  then have c: "view k (rollbackDeployment now k Automatic (canaryDeployer mgr)) = Some (Failed, 0)"
    by (simp add: view_rollbackDeployment)
  show ?thesis using a b c by simp
qed

text \<open>A poll at 30 percent errors that does not roll back: what it returns and records.\<close>

lemma poll_at_30_percent:
  assumes mon: "map_of (monitors mgr) ''dep-1'' = Some monitor"
    and ts: "triggers (rollbackPlan monitor) = Some aggressive"
    and cd: "canaryDeployer mgr = recordArrivals traffic_3_of_10_failing canary_live1"
    and now: "now \<le> 35000"
    and calm: "\<not> shouldTriggerRollback now
                 (monitor\<lparr>mon_checks := mon_checks monitor + 1, lastCheck := now,
                          violations := violations monitor @ hits now\<rparr>) (hits now)"
  shows "fst (performHealthCheck rid now ''dep-1'' mgr) = Inr False"
    and "snd (performHealthCheck rid now ''dep-1'' mgr) =
           mgr\<lparr>monitors :=
                 AList.update ''dep-1''
                   (monitor\<lparr>mon_checks := mon_checks monitor + 1, lastCheck := now,
                            violations := violations monitor @ hits now\<rparr>)
                   (monitors mgr)\<rparr>"
proof -
  obtain st where st: "getDeploymentStatus (canaryDeployer mgr) ''dep-1'' = Some st"
      "stage st = Monitoring"
    using watching_status [of traffic_3_of_10_failing] by (auto simp: cd)
  have live: "stage st \<noteq> Completed" "stage st \<noteq> Failed" using st(2) by simp_all
  have vs: "hits now = evaluateRollbackTriggers now mgr ''dep-1''
                    (getMetrics now (metricsCollector (canaryDeployer mgr)) ''/api/signup'' 30)"
    by (simp add: cd metrics_3_failing [OF now] hits_evaluated [OF mon ts])
  have ne: "hits now \<noteq> []" by (simp add: hits_def)
  show "fst (performHealthCheck rid now ''dep-1'' mgr) = Inr False"
    using performHealthCheck_live [OF mon st(1) live vs, of rid] calm by simp
  show "snd (performHealthCheck rid now ''dep-1'' mgr) =
           mgr\<lparr>monitors :=
                 AList.update ''dep-1''
                   (monitor\<lparr>mon_checks := mon_checks monitor + 1, lastCheck := now,
                            violations := violations monitor @ hits now\<rparr>)
                   (monitors mgr)\<rparr>"
    using performHealthCheck_live_state [OF mon st(1) live vs ne, of rid] calm by simp
qed

lemma calm_1:
  "\<not> shouldTriggerRollback 10000 (m\<lparr>violations := hits 10000\<rparr>) (hits 10000)"
  by (simp add: shouldTriggerRollback_def isCritical_def hits_def js_gt_def Let_def)

lemma calm_2:
  "\<not> shouldTriggerRollback 15000 (m\<lparr>violations := hits 10000 @ hits 15000\<rparr>) (hits 15000)"
  by (simp add: shouldTriggerRollback_def isCritical_def hits_def js_gt_def Let_def)

lemma mgr_poll1_eval:
  "fst (performHealthCheck ''rb-1'' 10000 ''dep-1'' (mgr_watching (Some aggressive) traffic_3_of_10_failing)) = Inr False"
  "mgr_poll1 =
     (mgr_watching (Some aggressive) traffic_3_of_10_failing)
       \<lparr>monitors := [(''dep-1'', (monitor0 (Some aggressive))
                        \<lparr>mon_checks := 1, lastCheck := 10000, violations := hits 10000\<rparr>)]\<rparr>"
proof -
  let ?mgr = "mgr_watching (Some aggressive) traffic_3_of_10_failing"
  let ?mon = "monitor0 (Some aggressive)"
  have mon: "map_of (monitors ?mgr) ''dep-1'' = Some ?mon" by (simp add: watching_monitors)
  have ts: "triggers (rollbackPlan ?mon) = Some aggressive" by (simp add: monitor0_def plan_with_def)
  have vio: "violations ?mon = []" and chk: "mon_checks ?mon = 0" by (simp_all add: monitor0_def)
  have calm: "\<not> shouldTriggerRollback 10000
                 (?mon\<lparr>mon_checks := mon_checks ?mon + 1, lastCheck := 10000,
                        violations := violations ?mon @ hits 10000\<rparr>) (hits 10000)"
    using calm_1 [of "?mon\<lparr>mon_checks := mon_checks ?mon + 1, lastCheck := 10000\<rparr>"]
    by (simp add: vio)
  note p = poll_at_30_percent [OF mon ts watching_canary _ calm, of "''rb-1''"]
  show "fst (performHealthCheck ''rb-1'' 10000 ''dep-1'' ?mgr) = Inr False"
    using p(1) by simp
  show "mgr_poll1 = ?mgr\<lparr>monitors := [(''dep-1'', ?mon\<lparr>mon_checks := 1, lastCheck := 10000, violations := hits 10000\<rparr>)]\<rparr>"
    unfolding mgr_poll1_def using p(2) by (simp add: watching_monitors vio chk)
qed

lemma mgr_poll2_eval:
  "fst (performHealthCheck ''rb-2'' 15000 ''dep-1'' mgr_poll1) = Inr False"
  "mgr_poll2 =
     (mgr_watching (Some aggressive) traffic_3_of_10_failing)
       \<lparr>monitors := [(''dep-1'', (monitor0 (Some aggressive))
                        \<lparr>mon_checks := 2, lastCheck := 15000,
                         violations := hits 10000 @ hits 15000\<rparr>)]\<rparr>"
proof -
  let ?mgr = "mgr_watching (Some aggressive) traffic_3_of_10_failing"
  let ?mon = "(monitor0 (Some aggressive))\<lparr>mon_checks := 1, lastCheck := 10000, violations := hits 10000\<rparr>"
  have mon: "map_of (monitors mgr_poll1) ''dep-1'' = Some ?mon" by (simp add: mgr_poll1_eval(2))
  have ts: "triggers (rollbackPlan ?mon) = Some aggressive" by (simp add: monitor0_def plan_with_def)
  have cd: "canaryDeployer mgr_poll1 = recordArrivals traffic_3_of_10_failing canary_live1"
    by (simp add: mgr_poll1_eval(2) watching_canary)
  have calm: "\<not> shouldTriggerRollback 15000
                 (?mon\<lparr>mon_checks := mon_checks ?mon + 1, lastCheck := 15000,
                        violations := violations ?mon @ hits 15000\<rparr>) (hits 15000)"
    using calm_2 [of "?mon\<lparr>mon_checks := mon_checks ?mon + 1, lastCheck := 15000\<rparr>"]
    by simp
  note p = poll_at_30_percent [OF mon ts cd _ calm, of "''rb-2''"]
  show "fst (performHealthCheck ''rb-2'' 15000 ''dep-1'' mgr_poll1) = Inr False"
    using p(1) by simp
  show "mgr_poll2 = ?mgr\<lparr>monitors := [(''dep-1'', (monitor0 (Some aggressive))
                        \<lparr>mon_checks := 2, lastCheck := 15000,
                         violations := hits 10000 @ hits 15000\<rparr>)]\<rparr>"
    unfolding mgr_poll2_def using p(2) by (simp add: mgr_poll1_eval(2))
qed

theorem sustained_violation_rolls_back_witness:
  "fst (performHealthCheck ''rb-1'' 10000 ''dep-1''
          (mgr_watching (Some aggressive) traffic_3_of_10_failing)) = Inr False \<and>
   fst (performHealthCheck ''rb-2'' 15000 ''dep-1'' mgr_poll1) = Inr False \<and>
   fst (performHealthCheck ''rb-3'' 20000 ''dep-1'' mgr_poll2) = Inr True \<and>
   view ''dep-1'' (canaryDeployer (snd (performHealthCheck ''rb-3'' 20000 ''dep-1'' mgr_poll2))) =
     Some (Failed, 0)"
proof -
  let ?mon = "(monitor0 (Some aggressive))
                \<lparr>mon_checks := 2, lastCheck := 15000, violations := hits 10000 @ hits 15000\<rparr>"
  let ?t = "\<lparr>metric = ErrorRate, threshold = Fin (25 / 100), rt_duration = 10\<rparr>"
  let ?m = "\<lparr>successRate = Fin (7 / 10), errorRate = Fin (3 / 10), latency = Fin 20,
             throughput = Fin (33 / 100), dm_timestamp = 20000, sampleSize = 10\<rparr>"
  have mon: "map_of (monitors mgr_poll2) ''dep-1'' = Some ?mon" by (simp add: mgr_poll2_eval(2))
  have ts: "triggers (rollbackPlan ?mon) = Some aggressive" by (simp add: monitor0_def plan_with_def)
  have t: "?t \<in> set aggressive" by (simp add: aggressive_def)
  have cd: "canaryDeployer mgr_poll2 = recordArrivals traffic_3_of_10_failing canary_live1"
    by (simp add: mgr_poll2_eval(2) watching_canary)
  obtain st where st: "getDeploymentStatus (canaryDeployer mgr_poll2) ''dep-1'' = Some st"
      "stage st = Monitoring"
    using watching_status [of traffic_3_of_10_failing] by (auto simp: cd)
  have live: "stage st \<noteq> Completed" "stage st \<noteq> Failed" using st(2) by simp_all
  have m: "?m = getMetrics 20000 (metricsCollector (canaryDeployer mgr_poll2)) ''/api/signup'' 30"
    by (simp add: cd metrics_3_failing)
  have v: "violated ?m ?t" by (simp add: violated_def js_gt_def)
  have not_critical: "\<not> js_gt (errorRate ?m) (Fin (1 / 2))" "\<not> js_lt (successRate ?m) (Fin (1 / 2))"
    by (simp_all add: js_gt_def)
  have two: "2 \<le> length (filter (\<lambda>rv. metric (rv_trigger rv) = metric ?t \<and>
                                   20000 - rv_timestamp rv < 60000) (violations ?mon))"
    by (simp add: hits_def)
  from sustained_violation_rolls_back [OF mon ts t st(1) live m v two, of "''rb-3''"]
  show ?thesis using mgr_poll1_eval(1) mgr_poll2_eval(1) by simp
qed

end
